theory Spec2Isabelle
  imports Main "HOL-Library.AList" "HOL-Library.Multiset"
begin

section \<open>Python values\<close>

text \<open>
  The values the library handles. An object of a user-visible class is \<open>PObject c i\<close>:
  its class name \<open>c\<close> and its identity \<open>i\<close>, so that Python's \<open>is\<close> is equality of
  model values. An instance of \<open>Factory\<close> carries the outcome of calling its
  \<open>factory\<close> attribute with no argument: the value returned or the exception raised.
\<close>

datatype exn = TypeError | NameError | ValueError | SyntaxError | AttributeError
  | Raised string

datatype pyval = PNone | PNotImplemented | PBool bool | PInt int | PStr string
  | PTuple "pyval list" | PList "pyval list" | PObject string nat | Factory "exn + pyval"

text \<open>\<open>NOTHING = _Nothing()\<close>: the one instance the module creates of class \<open>_Nothing\<close>.\<close>

definition NOTHING :: pyval where
  "NOTHING = PObject ''_Nothing'' 0"

fun class_of :: "pyval \<Rightarrow> string" where
  "class_of PNone = ''NoneType''"
| "class_of PNotImplemented = ''NotImplementedType''"
| "class_of (PBool b) = ''bool''"
| "class_of (PInt i) = ''int''"
| "class_of (PStr s) = ''str''"
| "class_of (PTuple vs) = ''tuple''"
| "class_of (PList vs) = ''list''"
| "class_of (PObject c i) = c"
| "class_of (Factory f) = ''Factory''"

subsection \<open>The methods of class \<open>_Nothing\<close>\<close>

definition Nothing_copy :: "pyval \<Rightarrow> pyval" where
  "Nothing_copy self = self"

definition Nothing_deepcopy :: "pyval \<Rightarrow> 'm \<Rightarrow> pyval" where
  "Nothing_deepcopy self memo = self"






definition Nothing_repr :: "pyval \<Rightarrow> string" where
  "Nothing_repr self = ''NOTHING''"

section \<open>Attributes\<close>

text \<open>
  A validator is called as \<open>validator(attribute, value)\<close>, always with the attribute it
  belongs to; its return value is not inspected. It is modelled by what it does with the
  value: \<open>None\<close> when it returns, \<open>Some e\<close> when it raises \<open>e\<close>.
\<close>

type_synonym validator_fn = "pyval \<Rightarrow> exn option"

text \<open>The arguments of \<open>attr()\<close>, shared by \<open>_CountingAttr\<close> and \<open>Attribute\<close>.\<close>

record attr_fields =
  default_val :: pyval
  validator :: "validator_fn option"
  no_repr :: bool
  no_cmp :: bool
  no_hash :: bool
  no_init :: bool

record counting_attr = attr_fields +
  counter :: nat

record attribute = attr_fields +
  name :: string

text \<open>
  The module's mutable state: the class attribute \<open>_CountingAttr.counter\<close> and the
  dictionary \<open>linecache.cache\<close>, whose entries are
  \<open>(len(script), None, script.splitlines(True), unique_filename)\<close>.
\<close>

type_synonym cache_entry = "nat \<times> string list \<times> string"

record globals =
  CountingAttr_counter :: nat
  linecache_cache :: "string \<Rightarrow> cache_entry option"

text \<open>\<open>_CountingAttr.__init__\<close>: the counter is incremented, then copied.\<close>

definition CountingAttr_init ::
  "pyval \<Rightarrow> validator_fn option \<Rightarrow> bool \<Rightarrow> bool \<Rightarrow> bool \<Rightarrow> bool \<Rightarrow> globals
    \<Rightarrow> counting_attr \<times> globals" where
  "CountingAttr_init default' validator' no_repr' no_cmp' no_hash' no_init' g =
     (let g' = g\<lparr>CountingAttr_counter := CountingAttr_counter g + 1\<rparr>
      in (\<lparr>default_val = default', validator = validator', no_repr = no_repr',
            no_cmp = no_cmp', no_hash = no_hash', no_init = no_init',
            counter = CountingAttr_counter g'\<rparr>, g'))"

definition attr ::
  "pyval \<Rightarrow> validator_fn option \<Rightarrow> bool \<Rightarrow> bool \<Rightarrow> bool \<Rightarrow> bool \<Rightarrow> globals
    \<Rightarrow> counting_attr \<times> globals" where
  "attr default' validator' no_repr' no_cmp' no_hash' no_init' g =
     CountingAttr_init default' validator' no_repr' no_cmp' no_hash' no_init' g"

text \<open>\<open>Attribute.from_counting_attr\<close>: every field but the counter, and the name.\<close>

definition from_counting_attr :: "string \<Rightarrow> counting_attr \<Rightarrow> attribute" where
  "from_counting_attr nm ca =
     \<lparr>default_val = default_val ca, validator = validator ca, no_repr = no_repr ca,
      no_cmp = no_cmp ca, no_hash = no_hash ca, no_init = no_init ca, name = nm\<rparr>"

section \<open>The generated initializer\<close>

subsection \<open>The script\<close>

text \<open>
  \<open>_attrs_to_script\<close> builds the text of a function definition. The model builds its
  syntax tree, with one constructor for each template of the source, and
  \<open>render_script\<close> gives the text back.
\<close>

datatype expr =
    Name string  \<comment> \<open>a variable\<close>
  | Attr_default string  \<comment> \<open>\<open>attr_dict['n'].default\<close>\<close>
  | Factory_call string  \<comment> \<open>\<open>attr_dict["n"].default.factory()\<close>\<close>

datatype stmt =
    Call_validator string string
      \<comment> \<open>\<open>attr_dict['n'].validator(attr_dict['n'], x)\<close>\<close>
  | Assign_self string expr  \<comment> \<open>\<open>self.n = e\<close>\<close>
  | If_is_not expr expr stmt stmt
      \<comment> \<open>\<open>if a is not b:\<close> one statement, \<open>else:\<close> one statement\<close>

datatype param = Param string "expr option"  \<comment> \<open>\<open>x\<close> or \<open>x=e\<close>\<close>

record script =
  script_args :: "param list"
  script_lines :: "stmt list"

text \<open>\<open>s.lstrip("_")\<close>\<close>

definition lstrip_underscore :: "string \<Rightarrow> string" where
  "lstrip_underscore s = dropWhile (\<lambda>c. c = CHR ''_'') s"

definition is_Factory :: "pyval \<Rightarrow> bool" where
  "is_Factory v = (case v of Factory f \<Rightarrow> True | _ \<Rightarrow> False)"

text \<open>The body of the loop of \<open>_attrs_to_script\<close>, on the lists \<open>lines\<close> and \<open>args\<close>.\<close>

definition attrs_to_script_step ::
  "attribute \<Rightarrow> stmt list \<times> param list \<Rightarrow> stmt list \<times> param list" where
  "attrs_to_script_step a acc =
     (let lines = fst acc; args = snd acc;
          attr_name = name a;
          arg_name = lstrip_underscore (name a);
          lines = (if validator a \<noteq> None
                   then lines @ [Call_validator attr_name attr_name] else lines)
      in if default_val a \<noteq> NOTHING \<and> \<not> is_Factory (default_val a)
         then (lines @ [Assign_self attr_name (Name arg_name)],
               args @ [Param arg_name (Some (Attr_default attr_name))])
         else if default_val a \<noteq> NOTHING \<and> is_Factory (default_val a)
         then (lines @ [If_is_not (Name arg_name) (Name ''NOTHING'')
                          (Assign_self attr_name (Name arg_name))
                          (Assign_self attr_name (Factory_call attr_name))],
               args @ [Param arg_name (Some (Name ''NOTHING''))])
         else (lines @ [Assign_self attr_name (Name arg_name)],
               args @ [Param arg_name None]))"

fun attrs_to_script_loop ::
  "attribute list \<Rightarrow> stmt list \<times> param list \<Rightarrow> stmt list \<times> param list" where
  "attrs_to_script_loop [] acc = acc"
| "attrs_to_script_loop (a # attrs) acc =
     attrs_to_script_loop attrs (attrs_to_script_step a acc)"

definition attrs_to_script :: "attribute list \<Rightarrow> script" where
  "attrs_to_script attrs =
     (let (lines, args) = attrs_to_script_loop attrs ([], [])
      in \<lparr>script_args = args, script_lines = lines\<rparr>)"

subsection \<open>The text of the script\<close>

text \<open>\<open>sep.join(xs)\<close>\<close>

fun join :: "string \<Rightarrow> string list \<Rightarrow> string" where
  "join sep [] = []"
| "join sep [x] = x"
| "join sep (x # y # ys) = x @ sep @ join sep (y # ys)"

definition quote :: string where
  "quote = [CHR 0x27]"

definition dquote :: string where
  "dquote = [CHR 0x22]"

definition newline :: string where
  "newline = [CHR 0x0A]"

fun render_expr :: "expr \<Rightarrow> string" where
  "render_expr (Name x) = x"
| "render_expr (Attr_default n) = ''attr_dict['' @ quote @ n @ quote @ ''].default''"
| "render_expr (Factory_call n) =
     ''attr_dict['' @ dquote @ n @ dquote @ ''].default.factory()''"

fun render_stmt :: "stmt \<Rightarrow> string list" where
  "render_stmt (Call_validator n x) =
     [''attr_dict['' @ quote @ n @ quote @ ''].validator(attr_dict['' @ quote @ n @ quote
        @ ''], '' @ x @ '')'']"
| "render_stmt (Assign_self n e) = [''self.'' @ n @ '' = '' @ render_expr e]"
| "render_stmt (If_is_not a b s1 s2) =
     [''if '' @ render_expr a @ '' is not '' @ render_expr b @ '':'']
     @ map (\<lambda>l. ''    '' @ l) (render_stmt s1)
     @ [''else:'']
     @ map (\<lambda>l. ''    '' @ l) (render_stmt s2)"

fun render_param :: "param \<Rightarrow> string" where
  "render_param (Param x None) = x"
| "render_param (Param x (Some e)) = x @ ''='' @ render_expr e"

definition render_script :: "script \<Rightarrow> string" where
  "render_script s =
     ''def __init__(self, '' @ join '', '' (map render_param (script_args s)) @ ''):''
     @ newline @ ''    '' @ quote @ quote @ quote
     @ newline @ ''    Attribute initializer automatically created by attrs.''
     @ newline @ ''    '' @ quote @ quote @ quote
     @ newline @ ''    ''
     @ join (newline @ ''    '') (concat (map render_stmt (script_lines s)))
     @ newline"

subsection \<open>Compiling the script\<close>

text \<open>
  \<open>compile(script, unique_filename, "exec")\<close> raises SyntaxError unless the text is a
  function definition: the parameters and the assigned fields are identifiers (ASCII
  ones, here) and no keywords, no parameter is named twice or named \<open>self\<close>, and no
  parameter without a default follows one with a default.
\<close>

definition ident_start :: "char \<Rightarrow> bool" where
  "ident_start c = (c \<in> set ''abcdefghijklmnopqrstuvwxyzABCDEFGHIJKLMNOPQRSTUVWXYZ_'')"

definition ident_char :: "char \<Rightarrow> bool" where
  "ident_char c = (ident_start c \<or> c \<in> set ''0123456789'')"

definition py_keywords :: "string list" where
  "py_keywords = [''False'', ''None'', ''True'', ''and'', ''as'', ''assert'', ''async'',
     ''await'', ''break'', ''class'', ''continue'', ''def'', ''del'', ''elif'', ''else'',
     ''except'', ''finally'', ''for'', ''from'', ''global'', ''if'', ''import'', ''in'',
     ''is'', ''lambda'', ''nonlocal'', ''not'', ''or'', ''pass'', ''raise'', ''return'',
     ''try'', ''while'', ''with'', ''yield'']"

definition is_identifier :: "string \<Rightarrow> bool" where
  "is_identifier s =
     (case s of [] \<Rightarrow> False
      | c # cs \<Rightarrow> ident_start c \<and> list_all ident_char cs \<and> s \<notin> set py_keywords)"

fun param_name :: "param \<Rightarrow> string" where
  "param_name (Param x d) = x"

fun param_default :: "param \<Rightarrow> expr option" where
  "param_default (Param x d) = d"

fun expr_ok :: "expr \<Rightarrow> bool" where
  "expr_ok (Name x) = is_identifier x"
| "expr_ok (Attr_default n) = True"
| "expr_ok (Factory_call n) = True"

fun stmt_ok :: "stmt \<Rightarrow> bool" where
  "stmt_ok (Call_validator n x) = is_identifier x"
| "stmt_ok (Assign_self n e) = (is_identifier n \<and> expr_ok e)"
| "stmt_ok (If_is_not a b s1 s2) = (expr_ok a \<and> expr_ok b \<and> stmt_ok s1 \<and> stmt_ok s2)"

text \<open>No parameter without a default after one with a default.\<close>

fun defaults_last :: "param list \<Rightarrow> bool" where
  "defaults_last [] = True"
| "defaults_last (Param x None # ps) = defaults_last ps"
| "defaults_last (Param x (Some e) # ps) = list_all (\<lambda>p. param_default p \<noteq> None) ps"

definition compile :: "script \<Rightarrow> exn + script" where
  "compile s =
     (if list_all (\<lambda>p. is_identifier (param_name p)) (script_args s)
         \<and> distinct (''self'' # map param_name (script_args s))
         \<and> defaults_last (script_args s)
         \<and> list_all stmt_ok (script_lines s)
      then Inr s else Inl SyntaxError)"

subsection \<open>Running the definition\<close>

text \<open>
  \<open>exec_(bytecode, {"NOTHING": NOTHING, "attr_dict": attr_dict}, locs)\<close> runs the
  \<open>def\<close> statement: the defaults of the parameters are evaluated, once, in these
  globals, and the function is stored in \<open>locs\<close>. The function keeps the globals, of
  which the model keeps \<open>attr_dict\<close> (\<open>NOTHING\<close> is the constant).
\<close>

record function_obj =
  fn_params :: "(string \<times> pyval option) list"
  fn_body :: "stmt list"
  fn_attr_dict :: "string \<Rightarrow> attribute option"

text \<open>Sequencing of computations that may raise.\<close>

definition and_then :: "exn + 'a \<Rightarrow> ('a \<Rightarrow> exn + 'b) \<Rightarrow> exn + 'b" where
  "and_then r f = (case r of Inl e \<Rightarrow> Inl e | Inr x \<Rightarrow> f x)"

text \<open>A default of a parameter, evaluated where the function is defined.\<close>

fun eval_default :: "(string \<Rightarrow> attribute option) \<Rightarrow> expr \<Rightarrow> exn + pyval" where
  "eval_default attr_dict (Name x) =
     (if x = ''NOTHING'' then Inr NOTHING else Inl NameError)"
| "eval_default attr_dict (Attr_default n) =
     (case attr_dict n of None \<Rightarrow> Inl (Raised ''KeyError'')
      | Some a \<Rightarrow> Inr (default_val a))"
| "eval_default attr_dict (Factory_call n) =
     (case attr_dict n of None \<Rightarrow> Inl (Raised ''KeyError'')
      | Some a \<Rightarrow> (case default_val a of Factory f \<Rightarrow> f | _ \<Rightarrow> Inl AttributeError))"

fun eval_params ::
  "(string \<Rightarrow> attribute option) \<Rightarrow> param list \<Rightarrow> exn + (string \<times> pyval option) list" where
  "eval_params attr_dict [] = Inr []"
| "eval_params attr_dict (Param x None # ps) =
     and_then (eval_params attr_dict ps) (\<lambda>r. Inr ((x, None) # r))"
| "eval_params attr_dict (Param x (Some e) # ps) =
     and_then (eval_default attr_dict e) (\<lambda>v.
     and_then (eval_params attr_dict ps) (\<lambda>r. Inr ((x, Some v) # r)))"

definition exec_def :: "(string \<Rightarrow> attribute option) \<Rightarrow> script \<Rightarrow> exn + function_obj" where
  "exec_def attr_dict s =
     and_then (eval_params attr_dict (script_args s)) (\<lambda>ps.
       Inr \<lparr>fn_params = ps, fn_body = script_lines s, fn_attr_dict = attr_dict\<rparr>)"

subsection \<open>Calling the function\<close>

text \<open>
  A call \<open>__init__(self, *pos, **kw)\<close> binds the parameters after \<open>self\<close>: the
  positional arguments in order, then the keyword arguments by name, then the defaults.
  It raises TypeError on too many positional arguments, on a keyword that names no
  parameter, on a parameter given twice (\<open>self\<close> is always given) and on a parameter
  without a value.
\<close>

text \<open>The arguments a call gives, by the names of the parameters.\<close>

definition given_args ::
  "(string \<times> pyval option) list \<Rightarrow> pyval list \<Rightarrow> (string \<times> pyval) list
    \<Rightarrow> string \<Rightarrow> pyval option" where
  "given_args ps pos kw = map_of (zip (map fst ps) pos) ++ map_of kw"

definition bind_args ::
  "(string \<times> pyval option) list \<Rightarrow> pyval list \<Rightarrow> (string \<times> pyval) list
    \<Rightarrow> exn + (string \<Rightarrow> pyval option)" where
  "bind_args ps pos kw =
     (let names = map fst ps;
          given = given_args ps pos kw
      in if length ps < length pos then Inl TypeError
         else if list_ex (\<lambda>k. k \<notin> set names) (map fst kw) then Inl TypeError
         else if list_ex (\<lambda>k. k \<in> set (take (length pos) names)) (map fst kw)
           then Inl TypeError
         else if list_ex (\<lambda>(x, d). given x = None \<and> d = None) ps then Inl TypeError
         else Inr (\<lambda>x. case given x of Some v \<Rightarrow> Some v
                        | None \<Rightarrow> (case map_of ps x of Some d \<Rightarrow> d | None \<Rightarrow> None)))"

text \<open>
  A name is looked up among the local variables (the parameters), then among the
  globals of the function; the names of the builtins are not modelled. Where a
  parameter is named \<open>attr_dict\<close> the subscript \<open>attr_dict[...]\<close> applies to its
  value, none of which can be subscripted by a string.
\<close>

definition lookup_attr ::
  "function_obj \<Rightarrow> (string \<Rightarrow> pyval option) \<Rightarrow> string \<Rightarrow> exn + attribute" where
  "lookup_attr fn locals n =
     (case locals ''attr_dict'' of Some v \<Rightarrow> Inl TypeError
      | None \<Rightarrow> (case fn_attr_dict fn n of None \<Rightarrow> Inl (Raised ''KeyError'')
                 | Some a \<Rightarrow> Inr a))"

fun eval_expr :: "function_obj \<Rightarrow> (string \<Rightarrow> pyval option) \<Rightarrow> expr \<Rightarrow> exn + pyval" where
  "eval_expr fn locals (Name x) =
     (case locals x of Some v \<Rightarrow> Inr v
      | None \<Rightarrow> (if x = ''NOTHING'' then Inr NOTHING else Inl NameError))"
| "eval_expr fn locals (Attr_default n) =
     and_then (lookup_attr fn locals n) (\<lambda>a. Inr (default_val a))"
| "eval_expr fn locals (Factory_call n) =
     and_then (lookup_attr fn locals n) (\<lambda>a.
       case default_val a of Factory f \<Rightarrow> f | _ \<Rightarrow> Inl AttributeError)"

text \<open>A statement, on the attributes of \<open>self\<close>.\<close>

fun exec_stmt ::
  "function_obj \<Rightarrow> (string \<Rightarrow> pyval option) \<Rightarrow> (string \<Rightarrow> pyval option) \<Rightarrow> stmt
    \<Rightarrow> exn + (string \<Rightarrow> pyval option)" where
  "exec_stmt fn locals self (Call_validator n x) =
     and_then (lookup_attr fn locals n) (\<lambda>a.
     and_then (eval_expr fn locals (Name x)) (\<lambda>v.
       case validator a of None \<Rightarrow> Inl TypeError
       | Some check \<Rightarrow> (case check v of Some e \<Rightarrow> Inl e | None \<Rightarrow> Inr self)))"
| "exec_stmt fn locals self (Assign_self n e) =
     and_then (eval_expr fn locals e) (\<lambda>v. Inr (self(n \<mapsto> v)))"
| "exec_stmt fn locals self (If_is_not a b s1 s2) =
     and_then (eval_expr fn locals a) (\<lambda>va.
     and_then (eval_expr fn locals b) (\<lambda>vb.
       if va \<noteq> vb then exec_stmt fn locals self s1 else exec_stmt fn locals self s2))"

fun exec_stmts ::
  "function_obj \<Rightarrow> (string \<Rightarrow> pyval option) \<Rightarrow> (string \<Rightarrow> pyval option) \<Rightarrow> stmt list
    \<Rightarrow> exn + (string \<Rightarrow> pyval option)" where
  "exec_stmts fn locals self [] = Inr self"
| "exec_stmts fn locals self (s # ss) =
     and_then (exec_stmt fn locals self s) (\<lambda>self'. exec_stmts fn locals self' ss)"

definition call_init ::
  "function_obj \<Rightarrow> (string \<Rightarrow> pyval option) \<Rightarrow> pyval list \<Rightarrow> (string \<times> pyval) list
    \<Rightarrow> exn + (string \<Rightarrow> pyval option)" where
  "call_init fn self pos kw =
     and_then (bind_args (fn_params fn) pos kw) (\<lambda>locals. exec_stmts fn locals self (fn_body fn))"

section \<open>The generated methods\<close>

text \<open>
  What the generated methods call from the language: \<open>getattr\<close>, \<open>isinstance\<close> against a
  class (given by its name), the comparison of two tuples (\<open>==\<close> gives a truth value, the
  orderings give what the comparison of the first differing items gives), \<open>hash\<close> and
  \<open>repr\<close>; for \<open>_add_init\<close>,
  \<open>hashlib.sha1(repr(attrs).encode("utf-8")).hexdigest()\<close>. They are parameters of the
  model. Each may raise.
\<close>

record runtime =
  rt_getattr :: "pyval \<Rightarrow> string \<Rightarrow> exn + pyval"
  rt_isinstance :: "pyval \<Rightarrow> string \<Rightarrow> bool"
  rt_eq :: "pyval \<Rightarrow> pyval \<Rightarrow> exn + bool"
  rt_lt :: "pyval \<Rightarrow> pyval \<Rightarrow> exn + pyval"
  rt_le :: "pyval \<Rightarrow> pyval \<Rightarrow> exn + pyval"
  rt_gt :: "pyval \<Rightarrow> pyval \<Rightarrow> exn + pyval"
  rt_ge :: "pyval \<Rightarrow> pyval \<Rightarrow> exn + pyval"
  rt_hash :: "pyval \<Rightarrow> exn + int"
  rt_repr :: "pyval \<Rightarrow> exn + string"
  rt_sha1_repr :: "attribute list \<Rightarrow> string"

text \<open>\<open>tuple(getattr(obj, a.name) for a in attrs)\<close>\<close>

fun attrs_to_tuple :: "runtime \<Rightarrow> pyval \<Rightarrow> attribute list \<Rightarrow> exn + pyval list" where
  "attrs_to_tuple rt obj [] = Inr []"
| "attrs_to_tuple rt obj (a # attrs) =
     and_then (rt_getattr rt obj (name a)) (\<lambda>v.
     and_then (attrs_to_tuple rt obj attrs) (\<lambda>vs. Inr (v # vs)))"

text \<open>The function \<open>hash_\<close> of \<open>_add_hash\<close>, for the list \<open>attrs\<close> it closes over.\<close>

definition hash_method :: "runtime \<Rightarrow> attribute list \<Rightarrow> pyval \<Rightarrow> exn + int" where
  "hash_method rt attrs self =
     and_then (attrs_to_tuple rt self attrs) (\<lambda>t. rt_hash rt (PTuple t))"

text \<open>
  The functions \<open>eq\<close>, \<open>ne\<close>, \<open>lt\<close>, \<open>le\<close>, \<open>gt\<close> and \<open>ge\<close> of \<open>_add_cmp\<close>.
  \<open>self.__class__\<close> is the class of \<open>self\<close>.
\<close>

definition cmp_eq :: "runtime \<Rightarrow> attribute list \<Rightarrow> pyval \<Rightarrow> pyval \<Rightarrow> exn + pyval" where
  "cmp_eq rt attrs self other =
     (if rt_isinstance rt other (class_of self)
      then and_then (attrs_to_tuple rt self attrs) (\<lambda>t1.
           and_then (attrs_to_tuple rt other attrs) (\<lambda>t2.
           and_then (rt_eq rt (PTuple t1) (PTuple t2)) (\<lambda>b. Inr (PBool b))))
      else Inr PNotImplemented)"

text \<open>The truth value of a value, for \<open>not result\<close>.\<close>

fun truth :: "pyval \<Rightarrow> bool" where
  "truth PNone = False"
| "truth PNotImplemented = True"
| "truth (PBool b) = b"
| "truth (PInt i) = (i \<noteq> 0)"
| "truth (PStr s) = (s \<noteq> [])"
| "truth (PTuple vs) = (vs \<noteq> [])"
| "truth (PList vs) = (vs \<noteq> [])"
| "truth (PObject c i) = True"
| "truth (Factory f) = True"

definition cmp_ne :: "runtime \<Rightarrow> attribute list \<Rightarrow> pyval \<Rightarrow> pyval \<Rightarrow> exn + pyval" where
  "cmp_ne rt attrs self other =
     and_then (cmp_eq rt attrs self other) (\<lambda>result.
       if result = PNotImplemented then Inr PNotImplemented
       else Inr (PBool (\<not> truth result)))"

definition cmp_lt :: "runtime \<Rightarrow> attribute list \<Rightarrow> pyval \<Rightarrow> pyval \<Rightarrow> exn + pyval" where
  "cmp_lt rt attrs self other =
     (if rt_isinstance rt other (class_of self)
      then and_then (attrs_to_tuple rt self attrs) (\<lambda>t1.
           and_then (attrs_to_tuple rt other attrs) (\<lambda>t2.
             rt_lt rt (PTuple t1) (PTuple t2)))
      else Inr PNotImplemented)"

definition cmp_le :: "runtime \<Rightarrow> attribute list \<Rightarrow> pyval \<Rightarrow> pyval \<Rightarrow> exn + pyval" where
  "cmp_le rt attrs self other =
     (if rt_isinstance rt other (class_of self)
      then and_then (attrs_to_tuple rt self attrs) (\<lambda>t1.
           and_then (attrs_to_tuple rt other attrs) (\<lambda>t2.
             rt_le rt (PTuple t1) (PTuple t2)))
      else Inr PNotImplemented)"

definition cmp_gt :: "runtime \<Rightarrow> attribute list \<Rightarrow> pyval \<Rightarrow> pyval \<Rightarrow> exn + pyval" where
  "cmp_gt rt attrs self other =
     (if rt_isinstance rt other (class_of self)
      then and_then (attrs_to_tuple rt self attrs) (\<lambda>t1.
           and_then (attrs_to_tuple rt other attrs) (\<lambda>t2.
             rt_gt rt (PTuple t1) (PTuple t2)))
      else Inr PNotImplemented)"

definition cmp_ge :: "runtime \<Rightarrow> attribute list \<Rightarrow> pyval \<Rightarrow> pyval \<Rightarrow> exn + pyval" where
  "cmp_ge rt attrs self other =
     (if rt_isinstance rt other (class_of self)
      then and_then (attrs_to_tuple rt self attrs) (\<lambda>t1.
           and_then (attrs_to_tuple rt other attrs) (\<lambda>t2.
             rt_ge rt (PTuple t1) (PTuple t2)))
      else Inr PNotImplemented)"

text \<open>
  The function \<open>repr_\<close> of \<open>_add_repr\<close>. \<open>repr_parts\<close> is the generator
  \<open>a.name + "=" + repr(getattr(self, a.name)) for a in attrs\<close>.
\<close>

fun repr_parts :: "runtime \<Rightarrow> pyval \<Rightarrow> attribute list \<Rightarrow> exn + string list" where
  "repr_parts rt self [] = Inr []"
| "repr_parts rt self (a # attrs) =
     and_then (rt_getattr rt self (name a)) (\<lambda>v.
     and_then (rt_repr rt v) (\<lambda>r.
     and_then (repr_parts rt self attrs) (\<lambda>rs. Inr ((name a @ ''='' @ r) # rs))))"

definition repr_method :: "runtime \<Rightarrow> attribute list \<Rightarrow> pyval \<Rightarrow> exn + string" where
  "repr_method rt attrs self =
     and_then (repr_parts rt self attrs) (\<lambda>parts.
       Inr (class_of self @ ''('' @ join '', '' parts @ '')''))"

section \<open>Classes\<close>

text \<open>
  What a class holds under a name: an attribute declared with \<open>attr()\<close>, an
  \<open>Attribute\<close>, a generated method (given by the function of the model it is and the
  list it closes over), or any other value.
\<close>

datatype py_method =
    Gen_repr "attribute list"
  | Gen_eq "attribute list" | Gen_ne "attribute list"
  | Gen_lt "attribute list" | Gen_le "attribute list"
  | Gen_gt "attribute list" | Gen_ge "attribute list"
  | Gen_hash "attribute list"
  | Gen_init function_obj

datatype member = Counting counting_attr | Attr attribute | Method py_method | Value pyval

text \<open>
  A class: its name, its \<open>__dict__\<close> (in the order \<open>items()\<close> gives it) and its
  \<open>__attrs_attrs__\<close>.
\<close>

record pyclass =
  cls_name :: string
  cls_dict :: "(string \<times> member) list"
  attrs_attrs :: "attribute list"

text \<open>\<open>setattr(cl, k, v)\<close>\<close>

definition cls_setattr :: "string \<Rightarrow> member \<Rightarrow> pyclass \<Rightarrow> pyclass" where
  "cls_setattr k v cl = cl\<lparr>cls_dict := AList.update k v (cls_dict cl)\<rparr>"

subsection \<open>\<open>_transform_attrs\<close>\<close>

text \<open>
  \<open>((name, attr) for name, attr in cl.__dict__.items() if isinstance(attr, _CountingAttr))\<close>
\<close>

fun counting_items :: "(string \<times> member) list \<Rightarrow> (string \<times> counting_attr) list" where
  "counting_items [] = []"
| "counting_items ((nm, Counting ca) # xs) = (nm, ca) # counting_items xs"
| "counting_items ((nm, m) # xs) = counting_items xs"

text \<open>The loop, on \<open>had_default\<close> and the class. \<open>is NOTHING\<close> is identity.\<close>

fun transform_loop ::
  "(string \<times> counting_attr) list \<Rightarrow> bool \<Rightarrow> pyclass \<Rightarrow> exn + pyclass" where
  "transform_loop [] had_default cl = Inr cl"
| "transform_loop ((attr_name, ca) # rest) had_default cl =
     (let a = from_counting_attr attr_name ca
      in if had_default \<and> default_val a = NOTHING then Inl ValueError
         else transform_loop rest
                (if \<not> had_default \<and> default_val a \<noteq> NOTHING then True else had_default)
                (cls_setattr attr_name (Attr a) (cl\<lparr>attrs_attrs := attrs_attrs cl @ [a]\<rparr>)))"

text \<open>\<open>sorted(..., key=lambda e: e[1].counter)\<close> is a stable sort, as \<open>sort_key\<close> is.\<close>

definition transform_attrs :: "pyclass \<Rightarrow> exn + pyclass" where
  "transform_attrs cl =
     transform_loop (sort_key (\<lambda>e. counter (snd e)) (counting_items (cls_dict cl)))
       False (cl\<lparr>attrs_attrs := []\<rparr>)"

subsection \<open>\<open>_add_hash\<close>, \<open>_add_cmp\<close>, \<open>_add_repr\<close>, \<open>_add_init\<close>\<close>

definition add_hash :: "pyclass \<Rightarrow> attribute list option \<Rightarrow> pyclass" where
  "add_hash cl attrs_arg =
     (let attrs = (case attrs_arg of None \<Rightarrow> filter (\<lambda>a. \<not> no_hash a) (attrs_attrs cl)
                   | Some attrs \<Rightarrow> attrs)
      in cls_setattr ''__hash__'' (Method (Gen_hash attrs)) cl)"

definition add_cmp :: "pyclass \<Rightarrow> attribute list option \<Rightarrow> pyclass" where
  "add_cmp cl attrs_arg =
     (let attrs = (case attrs_arg of None \<Rightarrow> filter (\<lambda>a. \<not> no_cmp a) (attrs_attrs cl)
                   | Some attrs \<Rightarrow> attrs)
      in cls_setattr ''__ge__'' (Method (Gen_ge attrs))
        (cls_setattr ''__gt__'' (Method (Gen_gt attrs))
        (cls_setattr ''__le__'' (Method (Gen_le attrs))
        (cls_setattr ''__lt__'' (Method (Gen_lt attrs))
        (cls_setattr ''__ne__'' (Method (Gen_ne attrs))
        (cls_setattr ''__eq__'' (Method (Gen_eq attrs)) cl))))))"

definition add_repr :: "pyclass \<Rightarrow> attribute list option \<Rightarrow> pyclass" where
  "add_repr cl attrs_arg =
     (let attrs = (case attrs_arg of None \<Rightarrow> filter (\<lambda>a. \<not> no_repr a) (attrs_attrs cl)
                   | Some attrs \<Rightarrow> attrs)
      in cls_setattr ''__repr__'' (Method (Gen_repr attrs)) cl)"

text \<open>\<open>s.splitlines(True)\<close>, for a text whose only line breaks are newlines.\<close>

fun splitlines_keepends :: "string \<Rightarrow> string list" where
  "splitlines_keepends [] = []"
| "splitlines_keepends (c # cs) =
     (if c = CHR 0x0A then [c] # splitlines_keepends cs
      else (case splitlines_keepends cs of [] \<Rightarrow> [[c]] | l # ls \<Rightarrow> (c # l) # ls))"

text \<open>\<open>dict((a.name, a) for a in attrs)\<close>: of two pairs with one key the later stays.\<close>

definition attr_dict_of :: "attribute list \<Rightarrow> string \<Rightarrow> attribute option" where
  "attr_dict_of attrs = map_of (rev (map (\<lambda>a. (name a, a)) attrs))"

definition unique_filename_of :: "runtime \<Rightarrow> attribute list \<Rightarrow> string" where
  "unique_filename_of rt attrs = ''<attrs generated init '' @ rt_sha1_repr rt attrs @ ''>''"

text \<open>An exception leaves the state of the module as it was when it was raised.\<close>

definition add_init :: "runtime \<Rightarrow> pyclass \<Rightarrow> globals \<Rightarrow> (exn + pyclass) \<times> globals" where
  "add_init rt cl g =
     (let attrs = filter (\<lambda>a. \<not> no_init a) (attrs_attrs cl);
          unique_filename = unique_filename_of rt attrs;
          script = attrs_to_script attrs
      in case compile script of Inl e \<Rightarrow> (Inl e, g)
         | Inr bytecode \<Rightarrow>
             (case exec_def (attr_dict_of attrs) bytecode of Inl e \<Rightarrow> (Inl e, g)
              | Inr init \<Rightarrow>
                  (Inr (cls_setattr ''__init__'' (Method (Gen_init init)) cl),
                   g\<lparr>linecache_cache := (linecache_cache g)(unique_filename \<mapsto>
                        (length (render_script script),
                         splitlines_keepends (render_script script),
                         unique_filename))\<rparr>)))"

subsection \<open>\<open>attributes\<close>\<close>

definition wrap ::
  "runtime \<Rightarrow> bool \<Rightarrow> bool \<Rightarrow> bool \<Rightarrow> bool \<Rightarrow> pyclass \<Rightarrow> globals
    \<Rightarrow> (exn + pyclass) \<times> globals" where
  "wrap rt no_repr' no_cmp' no_hash' no_init' cl g =
     (case transform_attrs cl of Inl e \<Rightarrow> (Inl e, g)
      | Inr cl \<Rightarrow>
          (let cl = (if \<not> no_repr' then add_repr cl None else cl);
               cl = (if \<not> no_cmp' then add_cmp cl None else cl);
               cl = (if \<not> no_hash' then add_hash cl None else cl)
           in if \<not> no_init' then add_init rt cl g else (Inr cl, g)))"

text \<open>
  \<open>attributes(maybe_cl, ...)\<close> processes \<open>maybe_cl\<close> when it is a class and returns the
  decorator \<open>wrap\<close> otherwise.
\<close>

datatype maybe_class = Is_class pyclass | Not_class pyval

definition attributes ::
  "runtime \<Rightarrow> maybe_class \<Rightarrow> bool \<Rightarrow> bool \<Rightarrow> bool \<Rightarrow> bool \<Rightarrow> globals
    \<Rightarrow> ((exn + pyclass) \<times> globals) + (pyclass \<Rightarrow> globals \<Rightarrow> (exn + pyclass) \<times> globals)" where
  "attributes rt maybe_cl no_repr' no_cmp' no_hash' no_init' g =
     (case maybe_cl of
        Is_class cl \<Rightarrow> Inl (wrap rt no_repr' no_cmp' no_hash' no_init' cl g)
      | Not_class v \<Rightarrow> Inr (wrap rt no_repr' no_cmp' no_hash' no_init'))"

subsection \<open>\<open>make_class\<close>\<close>

datatype attrs_arg = Attrs_dict "(string \<times> member) list" | Attrs_list "string list"
  | Attrs_other pyval

text \<open>The pairs \<open>(a, attr()) for a in attrs\<close>, one call of \<open>attr()\<close> after the other.\<close>

fun make_class_pairs :: "string list \<Rightarrow> globals \<Rightarrow> (string \<times> member) list \<times> globals" where
  "make_class_pairs [] g = ([], g)"
| "make_class_pairs (a # as) g =
     (let (ca, g1) = attr NOTHING None False False False False g;
          (ps, g2) = make_class_pairs as g1
      in ((a, Counting ca) # ps, g2))"

text \<open>\<open>dict(pairs)\<close>\<close>

definition dict_of_pairs :: "(string \<times> member) list \<Rightarrow> (string \<times> member) list" where
  "dict_of_pairs ps = fold (\<lambda>(k, v). AList.update k v) ps []"

text \<open>\<open>type(name, (object,), cl_dict)\<close>\<close>

definition new_class :: "string \<Rightarrow> (string \<times> member) list \<Rightarrow> pyclass" where
  "new_class nm cl_dict = \<lparr>cls_name = nm, cls_dict = cl_dict, attrs_attrs = []\<rparr>"

definition make_class ::
  "runtime \<Rightarrow> string \<Rightarrow> attrs_arg \<Rightarrow> bool \<Rightarrow> bool \<Rightarrow> bool \<Rightarrow> bool \<Rightarrow> globals
    \<Rightarrow> (exn + pyclass) \<times> globals" where
  "make_class rt nm attrs no_repr' no_cmp' no_hash' no_init' g =
     (case attrs of
        Attrs_dict cl_dict \<Rightarrow>
          (case attributes rt (Not_class PNone) no_repr' no_cmp' no_hash' no_init' g of
             Inl r \<Rightarrow> r | Inr decorate \<Rightarrow> decorate (new_class nm cl_dict) g)
      | Attrs_list as \<Rightarrow>
          (let (ps, g1) = make_class_pairs as g
           in case attributes rt (Not_class PNone) no_repr' no_cmp' no_hash' no_init' g1 of
                Inl r \<Rightarrow> r | Inr decorate \<Rightarrow> decorate (new_class nm (dict_of_pairs ps)) g1)
      | Attrs_other v \<Rightarrow> (Inl TypeError, g))"

section \<open>Using a class\<close>

text \<open>\<open>getattr(cl, k)\<close> for a name in the dictionary of the class.\<close>

definition cls_getattr :: "pyclass \<Rightarrow> string \<Rightarrow> member option" where
  "cls_getattr cl k = map_of (cls_dict cl) k"

text \<open>The generated methods, called.\<close>

fun call_cmp :: "runtime \<Rightarrow> py_method \<Rightarrow> pyval \<Rightarrow> pyval \<Rightarrow> exn + pyval" where
  "call_cmp rt (Gen_eq attrs) self other = cmp_eq rt attrs self other"
| "call_cmp rt (Gen_ne attrs) self other = cmp_ne rt attrs self other"
| "call_cmp rt (Gen_lt attrs) self other = cmp_lt rt attrs self other"
| "call_cmp rt (Gen_le attrs) self other = cmp_le rt attrs self other"
| "call_cmp rt (Gen_gt attrs) self other = cmp_gt rt attrs self other"
| "call_cmp rt (Gen_ge attrs) self other = cmp_ge rt attrs self other"
| "call_cmp rt m self other = Inl TypeError"

fun call_hash :: "runtime \<Rightarrow> py_method \<Rightarrow> pyval \<Rightarrow> exn + int" where
  "call_hash rt (Gen_hash attrs) self = hash_method rt attrs self"
| "call_hash rt m self = Inl TypeError"

fun call_repr :: "runtime \<Rightarrow> py_method \<Rightarrow> pyval \<Rightarrow> exn + string" where
  "call_repr rt (Gen_repr attrs) self = repr_method rt attrs self"
| "call_repr rt m self = Inl TypeError"

text \<open>
  \<open>cl(*pos, **kw)\<close>: a new object, without attributes, is initialized by the
  \<open>__init__\<close> of the class; the one inherited from \<open>object\<close> takes no argument.
\<close>

definition instantiate ::
  "pyclass \<Rightarrow> pyval list \<Rightarrow> (string \<times> pyval) list \<Rightarrow> exn + (string \<Rightarrow> pyval option)" where
  "instantiate cl pos kw =
     (case cls_getattr cl ''__init__'' of
        Some (Method (Gen_init init)) \<Rightarrow> call_init init Map.empty pos kw
      | _ \<Rightarrow> (if pos = [] \<and> kw = [] then Inr Map.empty else Inl TypeError))"

section \<open>Notions of the properties\<close>

text \<open>The defaults of the declared attributes, in the order of their counters.\<close>

definition declared_defaults :: "pyclass \<Rightarrow> pyval list" where
  "declared_defaults cl =
     map (\<lambda>e. default_val (snd e))
       (sort_key (\<lambda>e. counter (snd e)) (counting_items (cls_dict cl)))"

text \<open>
  A class body declares attributes by calls of \<open>attr()\<close>, one after the other, each
  with its arguments.
\<close>

definition attr_call :: "'a attr_fields_scheme \<Rightarrow> globals \<Rightarrow> counting_attr \<times> globals" where
  "attr_call s g =
     attr (default_val s) (validator s) (no_repr s) (no_cmp s) (no_hash s) (no_init s) g"

fun attr_calls :: "'a attr_fields_scheme list \<Rightarrow> globals \<Rightarrow> counting_attr list \<times> globals" where
  "attr_calls [] g = ([], g)"
| "attr_calls (s # ss) g =
     (let (ca, g1) = attr_call s g; (cas, g2) = attr_calls ss g1 in (ca # cas, g2))"

text \<open>The \<open>Attribute\<close> with a name and the arguments of a call of \<open>attr()\<close>.\<close>

definition declared_attribute :: "string \<Rightarrow> 'a attr_fields_scheme \<Rightarrow> attribute" where
  "declared_attribute nm s =
     \<lparr>default_val = default_val s, validator = validator s, no_repr = no_repr s,
      no_cmp = no_cmp s, no_hash = no_hash s, no_init = no_init s, name = nm\<rparr>"

text \<open>
  Whether, in a list of defaults, \<open>NOTHING\<close> comes after another value; \<open>h\<close> tells
  that another value has come before the list.
\<close>

fun mandatory_after_default :: "bool \<Rightarrow> pyval list \<Rightarrow> bool" where
  "mandatory_after_default h [] = False"
| "mandatory_after_default h (d # ds) =
     ((h \<and> d = NOTHING) \<or> mandatory_after_default (h \<or> d \<noteq> NOTHING) ds)"

text \<open>The fields of \<open>self\<close> a statement may assign.\<close>

fun assigned :: "stmt \<Rightarrow> string list" where
  "assigned (Call_validator n x) = []"
| "assigned (Assign_self n e) = [n]"
| "assigned (If_is_not a b s1 s2) = remdups (assigned s1 @ assigned s2)"

text \<open>The method \<open>_add_cmp\<close> stores under a name, for the list it closes over.\<close>

definition cmp_method :: "string \<Rightarrow> attribute list \<Rightarrow> py_method option" where
  "cmp_method k attrs =
     (if k = ''__eq__'' then Some (Gen_eq attrs)
      else if k = ''__ne__'' then Some (Gen_ne attrs)
      else if k = ''__lt__'' then Some (Gen_lt attrs)
      else if k = ''__le__'' then Some (Gen_le attrs)
      else if k = ''__gt__'' then Some (Gen_gt attrs)
      else if k = ''__ge__'' then Some (Gen_ge attrs)
      else None)"

text \<open>The class before \<open>_add_init\<close>.\<close>

definition before_init :: "bool \<Rightarrow> bool \<Rightarrow> bool \<Rightarrow> pyclass \<Rightarrow> pyclass" where
  "before_init nr nc nh cl =
     (let cl = (if \<not> nr then add_repr cl None else cl);
          cl = (if \<not> nc then add_cmp cl None else cl);
          cl = (if \<not> nh then add_hash cl None else cl)
      in cl)"

definition cmp_names :: "string list" where
  "cmp_names = [''__eq__'', ''__ne__'', ''__lt__'', ''__le__'', ''__gt__'', ''__ge__'']"

text \<open>A state that differs from another at most in one entry of \<open>linecache.cache\<close>.\<close>

definition one_cache_entry :: "globals \<Rightarrow> globals \<Rightarrow> bool" where
  "one_cache_entry g g' =
     (\<exists>k e. g' = g\<lparr>linecache_cache := (linecache_cache g)(k \<mapsto> e)\<rparr>)"


text \<open>The parameter and the statements \<open>_attrs_to_script\<close> writes for one attribute.\<close>

definition attr_param :: "attribute \<Rightarrow> param" where
  "attr_param a =
     (if default_val a \<noteq> NOTHING \<and> \<not> is_Factory (default_val a)
      then Param (lstrip_underscore (name a)) (Some (Attr_default (name a)))
      else if default_val a \<noteq> NOTHING \<and> is_Factory (default_val a)
      then Param (lstrip_underscore (name a)) (Some (Name ''NOTHING''))
      else Param (lstrip_underscore (name a)) None)"

definition attr_lines :: "attribute \<Rightarrow> stmt list" where
  "attr_lines a =
     (if validator a \<noteq> None then [Call_validator (name a) (name a)] else [])
     @ [if default_val a \<noteq> NOTHING \<and> is_Factory (default_val a)
        then If_is_not (Name (lstrip_underscore (name a))) (Name ''NOTHING'')
               (Assign_self (name a) (Name (lstrip_underscore (name a))))
               (Assign_self (name a) (Factory_call (name a)))
        else Assign_self (name a) (Name (lstrip_underscore (name a)))]"

text \<open>The default of the parameter of an attribute, as the function object keeps it.\<close>

definition init_default :: "attribute \<Rightarrow> pyval option" where
  "init_default a =
     (if default_val a = NOTHING then None
      else if is_Factory (default_val a) then Some NOTHING
      else Some (default_val a))"

subsection \<open>Examples\<close>

definition g0 :: globals where
  "g0 = \<lparr>CountingAttr_counter = 0, linecache_cache = Map.empty\<rparr>"

text \<open>The arguments of \<open>attr()\<close> and of \<open>attr(default=42)\<close>.\<close>

definition spec_mandatory :: attr_fields where
  "spec_mandatory = \<lparr>default_val = NOTHING, validator = None, no_repr = False,
     no_cmp = False, no_hash = False, no_init = False\<rparr>"

definition spec_42 :: attr_fields where
  "spec_42 = \<lparr>default_val = PInt 42, validator = None, no_repr = False,
     no_cmp = False, no_hash = False, no_init = False\<rparr>"

text \<open>
  \<open>class C: x = attr(); y = attr(default=42)\<close>, with a dictionary that lists \<open>y\<close>
  before \<open>x\<close>.
\<close>

definition class_C :: pyclass where
  "class_C =
     (let cas = fst (attr_calls [spec_mandatory, spec_42] g0)
      in \<lparr>cls_name = ''C'',
          cls_dict = [(''y'', Counting (cas ! 1)), (''__doc__'', Value PNone),
                      (''x'', Counting (cas ! 0))],
          attrs_attrs = []\<rparr>)"

text \<open>
  A runtime for the examples: every object of class \<open>C\<close> has \<open>x = 1\<close> and
  \<open>y = 42\<close>, an object is an instance of its own class only, tuples are equal when
  they are the same and are not ordered, and the hash of a tuple is its length.
\<close>

definition rt0 :: runtime where
  "rt0 = \<lparr>
     rt_getattr = (\<lambda>obj n. if class_of obj = ''C'' \<and> n = ''x'' then Inr (PInt 1)
                     else if class_of obj = ''C'' \<and> n = ''y'' then Inr (PInt 42)
                     else Inl AttributeError),
     rt_isinstance = (\<lambda>obj c. class_of obj = c),
     rt_eq = (\<lambda>a b. Inr (a = b)),
     rt_lt = (\<lambda>a b. Inl TypeError),
     rt_le = (\<lambda>a b. Inl TypeError),
     rt_gt = (\<lambda>a b. Inl TypeError),
     rt_ge = (\<lambda>a b. Inl TypeError),
     rt_hash = (\<lambda>v. case v of PTuple vs \<Rightarrow> Inr (int (length vs)) | _ \<Rightarrow> Inl TypeError),
     rt_repr = (\<lambda>v. case v of PInt i \<Rightarrow> Inr (if i = 1 then ''1'' else ''42'')
                  | _ \<Rightarrow> Inl TypeError),
     rt_sha1_repr = (\<lambda>attrs. ''da39a3ee5e6b4b0d3255bfef95601890afd80709'')\<rparr>"

text \<open>
  A second runtime: \<open>class Sub(_Nothing): pass\<close>, so that an object of class \<open>Sub\<close>
  is an instance of \<open>_Nothing\<close> too; every object of class \<open>L\<close> has \<open>x = [1]\<close>;
  and a tuple that holds a list has no hash, as a list has none.
\<close>

definition rt1 :: runtime where
  "rt1 = \<lparr>
     rt_getattr = (\<lambda>obj n. if class_of obj = ''L'' \<and> n = ''x'' then Inr (PList [PInt 1])
                     else Inl AttributeError),
     rt_isinstance = (\<lambda>obj c. class_of obj = c \<or> class_of obj = ''Sub'' \<and> c = ''_Nothing''),
     rt_eq = (\<lambda>a b. Inr (a = b)),
     rt_lt = (\<lambda>a b. Inl TypeError),
     rt_le = (\<lambda>a b. Inl TypeError),
     rt_gt = (\<lambda>a b. Inl TypeError),
     rt_ge = (\<lambda>a b. Inl TypeError),
     rt_hash = (\<lambda>v. case v of
                  PTuple vs \<Rightarrow>
                    if list_ex (\<lambda>u. case u of PList xs \<Rightarrow> True | _ \<Rightarrow> False) vs
                    then Inl TypeError else Inr (int (length vs))
                | _ \<Rightarrow> Inl TypeError),
     rt_repr = (\<lambda>v. Inl TypeError),
     rt_sha1_repr = (\<lambda>attrs. ''da39a3ee5e6b4b0d3255bfef95601890afd80709'')\<rparr>"

text \<open>
  A third runtime: the object of class \<open>L\<close> with the identity \<open>i\<close> has for \<open>x\<close>
  the object with the identity \<open>i\<close> of a class \<open>E\<close>, whose \<open>__eq__\<close> returns True
  and whose \<open>__hash__\<close> returns the identity. Tuples of such objects compare equal,
  and the hash of a tuple of one item, which is a one-to-one function of the hash of
  the item, is taken to be that hash.
\<close>

definition rt2 :: runtime where
  "rt2 = \<lparr>
     rt_getattr = (\<lambda>obj n. case obj of
                     PObject c i \<Rightarrow>
                       if c = ''L'' \<and> n = ''x'' then Inr (PObject ''E'' i)
                       else Inl AttributeError
                   | _ \<Rightarrow> Inl AttributeError),
     rt_isinstance = (\<lambda>obj c. class_of obj = c),
     rt_eq = (\<lambda>a b. Inr True),
     rt_lt = (\<lambda>a b. Inl TypeError),
     rt_le = (\<lambda>a b. Inl TypeError),
     rt_gt = (\<lambda>a b. Inl TypeError),
     rt_ge = (\<lambda>a b. Inl TypeError),
     rt_hash = (\<lambda>v. case v of PTuple [PObject c i] \<Rightarrow> Inr (int i) | _ \<Rightarrow> Inl TypeError),
     rt_repr = (\<lambda>v. Inl TypeError),
     rt_sha1_repr = (\<lambda>attrs. ''da39a3ee5e6b4b0d3255bfef95601890afd80709'')\<rparr>"


text \<open>\<open>class L: x = attr()\<close>, and two of its instances.\<close>

definition class_L :: pyclass where
  "class_L = \<lparr>cls_name = ''L'',
     cls_dict =
       [(''x'', Counting \<lparr>default_val = NOTHING, validator = None, no_repr = False,
           no_cmp = False, no_hash = False, no_init = False, counter = 1\<rparr>)],
     attrs_attrs = []\<rparr>"

definition objL1 :: pyval where
  "objL1 = PObject ''L'' 1"

definition objL2 :: pyval where
  "objL2 = PObject ''L'' 2"

text \<open>
  A class is decorated, with no flag set, and its \<open>__eq__\<close> or its \<open>__hash__\<close> is
  called.
\<close>

definition decorated_eq :: "runtime \<Rightarrow> pyclass \<Rightarrow> pyval \<Rightarrow> pyval \<Rightarrow> exn + pyval" where
  "decorated_eq rt cl x y =
     and_then (fst (wrap rt False False False False cl g0)) (\<lambda>cl'.
       case cls_getattr cl' ''__eq__'' of
         Some (Method m) \<Rightarrow> call_cmp rt m x y | _ \<Rightarrow> Inl AttributeError)"

definition decorated_hash :: "runtime \<Rightarrow> pyclass \<Rightarrow> pyval \<Rightarrow> exn + int" where
  "decorated_hash rt cl x =
     and_then (fst (wrap rt False False False False cl g0)) (\<lambda>cl'.
       case cls_getattr cl' ''__hash__'' of
         Some (Method m) \<Rightarrow> call_hash rt m x | _ \<Rightarrow> Inl AttributeError)"

definition obj1 :: pyval where
  "obj1 = PObject ''C'' 1"

definition obj2 :: pyval where
  "obj2 = PObject ''C'' 2"

text \<open>
  \<open>class D: x = attr(); _y = attr(default=42); z = attr(default=Factory(f))\<close>, where
  \<open>f()\<close> returns the empty tuple.
\<close>

definition class_D :: pyclass where
  "class_D = \<lparr>cls_name = ''D'',
     cls_dict =
       [(''x'', Counting \<lparr>default_val = NOTHING, validator = None, no_repr = False,
           no_cmp = False, no_hash = False, no_init = False, counter = 1\<rparr>),
        (''_y'', Counting \<lparr>default_val = PInt 42, validator = None, no_repr = False,
           no_cmp = False, no_hash = False, no_init = False, counter = 2\<rparr>),
        (''z'', Counting \<lparr>default_val = Factory (Inr (PTuple [])), validator = None,
           no_repr = False, no_cmp = False, no_hash = False, no_init = False,
           counter = 3\<rparr>)],
     attrs_attrs = []\<rparr>"

text \<open>A validator that accepts strings only, as \<open>instance_of(str)\<close> does.\<close>

definition accepts_str :: validator_fn where
  "accepts_str v = (case v of PStr s \<Rightarrow> None | _ \<Rightarrow> Some TypeError)"

text \<open>\<open>class V: x = attr(validator=instance_of(str))\<close>\<close>

definition class_V :: pyclass where
  "class_V = \<lparr>cls_name = ''V'',
     cls_dict =
       [(''x'', Counting \<lparr>default_val = NOTHING, validator = Some accepts_str,
           no_repr = False, no_cmp = False, no_hash = False, no_init = False,
           counter = 1\<rparr>)],
     attrs_attrs = []\<rparr>"


text \<open>A class is decorated, with no flag set, and called.\<close>

definition decorate_and_call ::
  "runtime \<Rightarrow> pyclass \<Rightarrow> pyval list \<Rightarrow> (string \<times> pyval) list
    \<Rightarrow> exn + (string \<Rightarrow> pyval option)" where
  "decorate_and_call rt cl pos kw =
     and_then (fst (wrap rt False False False False cl g0)) (\<lambda>cl'. instantiate cl' pos kw)"

text \<open>A validator that accepts every value.\<close>

definition accepts_all :: validator_fn where
  "accepts_all v = None"

text \<open>\<open>class P: _x = attr(validator=accepts_all)\<close>\<close>

definition class_P :: pyclass where
  "class_P = \<lparr>cls_name = ''P'',
     cls_dict =
       [(''_x'', Counting \<lparr>default_val = NOTHING, validator = Some accepts_all,
           no_repr = False, no_cmp = False, no_hash = False, no_init = False,
           counter = 1\<rparr>)],
     attrs_attrs = []\<rparr>"

text \<open>\<open>class N: NOTHING = attr(default=Factory(f))\<close>, where \<open>f()\<close> returns the empty tuple.\<close>

definition class_N :: pyclass where
  "class_N = \<lparr>cls_name = ''N'',
     cls_dict =
       [(''NOTHING'', Counting \<lparr>default_val = Factory (Inr (PTuple [])), validator = None,
           no_repr = False, no_cmp = False, no_hash = False, no_init = False,
           counter = 1\<rparr>)],
     attrs_attrs = []\<rparr>"

text \<open>
  \<open>class W: x = attr(default=Factory(f), validator=instance_of(str))\<close>, where \<open>f()\<close>
  returns the empty string.
\<close>

definition class_W :: pyclass where
  "class_W = \<lparr>cls_name = ''W'',
     cls_dict =
       [(''x'', Counting \<lparr>default_val = Factory (Inr (PStr [])),
           validator = Some accepts_str, no_repr = False, no_cmp = False, no_hash = False,
           no_init = False, counter = 1\<rparr>)],
     attrs_attrs = []\<rparr>"

section \<open>Properties\<close>




subsection \<open>\<open>_transform_attrs\<close>\<close>

lemma transform_loop_attrs:
  "transform_loop xs h cl = Inr cl' \<Longrightarrow>
     attrs_attrs cl' = attrs_attrs cl @ map (\<lambda>(n, ca). from_counting_attr n ca) xs"
  by (induction xs arbitrary: h cl) (auto simp: Let_def cls_setattr_def split: if_splits)

lemma transform_loop_error:
  "transform_loop xs h cl = Inl e \<Longrightarrow> e = ValueError"
  by (induction xs arbitrary: h cl) (auto simp: Let_def split: if_splits)

lemma default_val_from_counting_attr [simp]:
  "default_val (from_counting_attr n ca) = default_val ca"
  by (simp add: from_counting_attr_def)

lemma name_from_counting_attr [simp]:
  "name (from_counting_attr n ca) = n"
  by (simp add: from_counting_attr_def)

lemma transform_loop_raises:
  "(transform_loop xs h cl = Inl ValueError) \<longleftrightarrow>
     mandatory_after_default h (map (\<lambda>e. default_val (snd e)) xs)"
  by (induction xs arbitrary: h cl) (auto simp: Let_def split: if_splits)

lemma mandatory_after_default_True:
  "mandatory_after_default True ds \<longleftrightarrow> NOTHING \<in> set ds"
  by (induction ds) auto

lemma mandatory_after_default_False:
  "mandatory_after_default False ds \<longleftrightarrow>
     (\<exists>i j. i < j \<and> j < length ds \<and> ds ! i \<noteq> NOTHING \<and> ds ! j = NOTHING)"
proof (induction ds)
  case Nil
  then show ?case by simp
next
  case (Cons d ds)
  show ?case
  proof (cases "d = NOTHING")
    case True
    have "(\<exists>i j. i < j \<and> j < length (d # ds) \<and> (d # ds) ! i \<noteq> NOTHING \<and> (d # ds) ! j = NOTHING)
       \<longleftrightarrow> (\<exists>i j. i < j \<and> j < length ds \<and> ds ! i \<noteq> NOTHING \<and> ds ! j = NOTHING)"
      (is "?L \<longleftrightarrow> ?R")
    proof
      assume ?L
      then obtain i j where ij: "i < j" "j < length (d # ds)" "(d # ds) ! i \<noteq> NOTHING"
        "(d # ds) ! j = NOTHING" by blast
      with True have "i \<noteq> 0" by (cases i) auto
      then obtain i' where i': "i = Suc i'" by (cases i) auto
      with ij obtain j' where j': "j = Suc j'" by (cases j) auto
      from ij i' j' have "i' < j' \<and> j' < length ds \<and> ds ! i' \<noteq> NOTHING \<and> ds ! j' = NOTHING"
        by simp
      then show ?R by blast
    next
      assume ?R
      then obtain i j where "i < j" "j < length ds" "ds ! i \<noteq> NOTHING" "ds ! j = NOTHING"
        by blast
      then have "Suc i < Suc j \<and> Suc j < length (d # ds) \<and> (d # ds) ! Suc i \<noteq> NOTHING
        \<and> (d # ds) ! Suc j = NOTHING" by simp
      then show ?L by blast
    qed
    with True Cons show ?thesis by simp
  next
    case False
    have "(\<exists>i j. i < j \<and> j < length (d # ds) \<and> (d # ds) ! i \<noteq> NOTHING \<and> (d # ds) ! j = NOTHING)
       \<longleftrightarrow> NOTHING \<in> set ds" (is "?L \<longleftrightarrow> ?R")
    proof
      assume ?L
      then obtain i j where ij: "i < j" "j < length (d # ds)" "(d # ds) ! j = NOTHING" by blast
      then obtain j' where "j = Suc j'" by (cases j) auto
      with ij have "j' < length ds" "ds ! j' = NOTHING" by auto
      then show ?R by (metis nth_mem)
    next
      assume ?R
      then obtain j where "j < length ds" "ds ! j = NOTHING" by (auto simp: in_set_conv_nth)
      with False have "0 < Suc j \<and> Suc j < length (d # ds) \<and> (d # ds) ! 0 \<noteq> NOTHING
        \<and> (d # ds) ! Suc j = NOTHING" by simp
      then show ?L by blast
    qed
    with False show ?thesis by (simp add: mandatory_after_default_True)
  qed
qed

text \<open>
  C3. \<open>_transform_attrs\<close> raises ValueError exactly when, among the defaults of the
  declared attributes in the order of declaration, \<open>NOTHING\<close> comes after a value that
  is not \<open>NOTHING\<close>; in every other case it returns the class.
\<close>

theorem transform_attrs_raises_iff:
  "(transform_attrs cl = Inl ValueError) =
     (\<exists>i j. i < j \<and> j < length (declared_defaults cl)
        \<and> declared_defaults cl ! i \<noteq> NOTHING \<and> declared_defaults cl ! j = NOTHING)
   \<and> (\<exists>cl'. transform_attrs cl = Inr cl') =
     (\<not> (\<exists>i j. i < j \<and> j < length (declared_defaults cl)
        \<and> declared_defaults cl ! i \<noteq> NOTHING \<and> declared_defaults cl ! j = NOTHING))"
proof -
  let ?bad = "\<exists>i j. i < j \<and> j < length (declared_defaults cl)
        \<and> declared_defaults cl ! i \<noteq> NOTHING \<and> declared_defaults cl ! j = NOTHING"
  have raises: "(transform_attrs cl = Inl ValueError) = ?bad"
    unfolding transform_attrs_def declared_defaults_def
    by (simp only: transform_loop_raises mandatory_after_default_False)
  have "(\<exists>cl'. transform_attrs cl = Inr cl') = (transform_attrs cl \<noteq> Inl ValueError)"
  proof (cases "transform_attrs cl")
    case (Inl e)
    then have "e = ValueError"
      unfolding transform_attrs_def by (rule transform_loop_error)
    with Inl show ?thesis by simp
  next
    case (Inr c)
    then show ?thesis by simp
  qed
  with raises show ?thesis by simp
qed

lemma transform_attrs_sorted:
  "transform_attrs cl = Inr cl' \<Longrightarrow>
     attrs_attrs cl' = map (\<lambda>(n, ca). from_counting_attr n ca)
       (sort_key (\<lambda>e. counter (snd e)) (counting_items (cls_dict cl)))"
  unfolding transform_attrs_def by (drule transform_loop_attrs) simp

lemma attr_call_counter:
  "attr_call s g = (ca, g') \<Longrightarrow>
     counter ca = CountingAttr_counter g + 1 \<and> CountingAttr_counter g' = CountingAttr_counter g + 1
     \<and> from_counting_attr n ca = declared_attribute n s"
  by (auto simp: attr_call_def attr_def CountingAttr_init_def Let_def from_counting_attr_def
      declared_attribute_def)

text \<open>Each call of \<open>attr()\<close> gives a counter above all the earlier ones.\<close>

lemma attr_calls_props:
  "attr_calls specs g = (cas, g') \<Longrightarrow>
     length cas = length specs
     \<and> (\<forall>ca \<in> set cas. CountingAttr_counter g < counter ca)
     \<and> sorted_wrt (<) (map counter cas)
     \<and> (\<forall>ns. length ns = length specs \<longrightarrow>
           map2 from_counting_attr ns cas = map2 declared_attribute ns specs)"
proof (induction specs arbitrary: g cas g')
  case Nil
  then show ?case by simp
next
  case (Cons s ss)
  obtain ca g1 where c1: "attr_call s g = (ca, g1)" by (cases "attr_call s g")
  obtain cas1 g2 where c2: "attr_calls ss g1 = (cas1, g2)" by (cases "attr_calls ss g1")
  from Cons.prems c1 c2 have cas: "cas = ca # cas1" by simp
  note ih = Cons.IH [OF c2]
  note a = attr_call_counter [OF c1]
  have lt: "\<forall>x \<in> set cas1. counter ca < counter x"
    using ih a by auto
  have m: "\<forall>ns. length ns = length (s # ss) \<longrightarrow>
           map2 from_counting_attr ns cas = map2 declared_attribute ns (s # ss)"
  proof (intro allI impI)
    fix ns :: "string list"
    assume "length ns = length (s # ss)"
    then obtain n ns1 where ns: "ns = n # ns1" "length ns1 = length ss" by (cases ns) auto
    with ih have "map2 from_counting_attr ns1 cas1 = map2 declared_attribute ns1 ss" by blast
    with ns a cas show "map2 from_counting_attr ns cas = map2 declared_attribute ns (s # ss)"
      by simp
  qed
  show ?case using ih a lt m cas by auto
qed

text \<open>A list with distinct keys in increasing order is what sorting any of its permutations gives.\<close>

lemma sort_key_unique:
  assumes "mset xs = mset ys" and "sorted_wrt (<) (map f ys)"
  shows "sort_key f xs = ys"
proof -
  let ?zs = "sort_key f xs"
  have d: "distinct (map f ys)" using assms(2) by (simp add: strict_sorted_iff)
  have s: "sorted (map f ys)" using assms(2) by (simp add: strict_sorted_iff)
  have ms: "mset ?zs = mset ys" using assms(1) by simp
  then have mm: "mset (map f ?zs) = mset (map f ys)" by (metis mset_map)
  then have d2: "distinct (map f ?zs)" using d by (metis mset_eq_imp_distinct_iff)
  have "set (map f ?zs) = set (map f ys)" using mm by (metis mset_eq_setD)
  then have eq: "map f ?zs = map f ys"
    using sorted_distinct_set_unique [OF sorted_sort_key d2 s d] by simp
  have st: "set ?zs = set ys" using ms by (metis mset_eq_setD)
  have "inj_on f (set ys)" using d by (simp add: distinct_map)
  then have "inj_on f (set ?zs \<union> set ys)" using st by simp
  with eq show ?thesis by (rule map_inj_on)
qed

lemma sorted_wrt_zip_snd:
  assumes "length ns = length cas" and "sorted_wrt (<) (map counter cas)"
  shows "sorted_wrt (<) (map (\<lambda>e. counter (snd e)) (zip ns cas))"
proof -
  from assms(1) have "map (\<lambda>e. counter (snd e)) (zip ns cas) = map counter cas"
    by (induction ns cas rule: list_induct2) auto
  with assms(2) show ?thesis by simp
qed

text \<open>
  C2. Where \<open>_transform_attrs\<close> returns, \<open>__attrs_attrs__\<close> holds the attributes the
  class declares and no other, each converted by \<open>from_counting_attr\<close>, in the order of
  their counters; where the class declares the names \<open>ns\<close> by calls of \<open>attr()\<close> made
  in this order, this is the order of \<open>__attrs_attrs__\<close>, whatever the order of the
  dictionary of the class.
\<close>

theorem transform_attrs_declaration_order:
  assumes "transform_attrs cl = Inr cl'"
  shows "(\<exists>cas. attrs_attrs cl' = map (\<lambda>(n, ca). from_counting_attr n ca) cas
            \<and> mset cas = mset (counting_items (cls_dict cl))
            \<and> sorted (map (\<lambda>e. counter (snd e)) cas))
       \<and> (\<forall>specs :: attr_fields list. \<forall>g ns. length ns = length specs
            \<and> mset (counting_items (cls_dict cl)) = mset (zip ns (fst (attr_calls specs g)))
            \<longrightarrow> attrs_attrs cl' = map2 declared_attribute ns specs)"
proof (intro conjI allI impI)
  let ?s = "sort_key (\<lambda>e. counter (snd e)) (counting_items (cls_dict cl))"
  have "attrs_attrs cl' = map (\<lambda>(n, ca). from_counting_attr n ca) ?s
      \<and> mset ?s = mset (counting_items (cls_dict cl))
      \<and> sorted (map (\<lambda>e. counter (snd e)) ?s)"
    using transform_attrs_sorted [OF assms] by simp
  then show "\<exists>cas. attrs_attrs cl' = map (\<lambda>(n, ca). from_counting_attr n ca) cas
            \<and> mset cas = mset (counting_items (cls_dict cl))
            \<and> sorted (map (\<lambda>e. counter (snd e)) cas)" by blast
next
  fix specs :: "attr_fields list" and g ns
  assume h: "length ns = length specs
            \<and> mset (counting_items (cls_dict cl)) = mset (zip ns (fst (attr_calls specs g)))"
  obtain cas g' where c: "attr_calls specs g = (cas, g')" by (cases "attr_calls specs g")
  note p = attr_calls_props [OF c]
  from h c p have len: "length ns = length cas" by simp
  have "sort_key (\<lambda>e. counter (snd e)) (counting_items (cls_dict cl)) = zip ns cas"
    using h c sorted_wrt_zip_snd [OF len] p by (intro sort_key_unique) auto
  then have "attrs_attrs cl' = map2 from_counting_attr ns cas"
    using transform_attrs_sorted [OF assms] by simp
  with p h show "attrs_attrs cl' = map2 declared_attribute ns specs" by simp
qed

lemma class_C_counting_items:
  "counting_items (cls_dict class_C) =
     [(''y'', \<lparr>default_val = PInt 42, validator = None, no_repr = False, no_cmp = False,
               no_hash = False, no_init = False, counter = 2\<rparr>),
      (''x'', \<lparr>default_val = NOTHING, validator = None, no_repr = False, no_cmp = False,
               no_hash = False, no_init = False, counter = 1\<rparr>)]"
  by (simp add: class_C_def attr_call_def attr_def CountingAttr_init_def g0_def
      spec_mandatory_def spec_42_def Let_def)

lemma class_C_attr_calls:
  "fst (attr_calls [spec_mandatory, spec_42] g0) =
     [\<lparr>default_val = NOTHING, validator = None, no_repr = False, no_cmp = False,
               no_hash = False, no_init = False, counter = 1\<rparr>,
      \<lparr>default_val = PInt 42, validator = None, no_repr = False, no_cmp = False,
               no_hash = False, no_init = False, counter = 2\<rparr>]"
  by (simp add: attr_call_def attr_def CountingAttr_init_def g0_def
      spec_mandatory_def spec_42_def Let_def)

theorem transform_attrs_declaration_order_witness:
  "\<exists>cl'. transform_attrs class_C = Inr cl'
     \<and> attrs_attrs cl' = [declared_attribute ''x'' spec_mandatory, declared_attribute ''y'' spec_42]"
proof -
  have "\<exists>cl'. transform_attrs class_C = Inr cl'"
    by (simp add: transform_attrs_def class_C_counting_items from_counting_attr_def Let_def)
  then obtain cl' where t: "transform_attrs class_C = Inr cl'" by blast
  have m: "length [''x'', ''y''] = length [spec_mandatory, spec_42]
     \<and> mset (counting_items (cls_dict class_C)) =
        mset (zip [''x'', ''y''] (fst (attr_calls [spec_mandatory, spec_42] g0)))"
    unfolding class_C_counting_items class_C_attr_calls by (simp add: add_mset_commute)
  from transform_attrs_declaration_order [OF t] m
  have "attrs_attrs cl' = map2 declared_attribute [''x'', ''y''] [spec_mandatory, spec_42]"
    by blast
  with t show ?thesis by simp
qed

subsection \<open>What the decorator installs\<close>

lemma cls_getattr_setattr [simp]:
  "cls_getattr (cls_setattr k v cl) k' = (if k' = k then Some v else cls_getattr cl k')"
  by (simp add: cls_getattr_def cls_setattr_def update_conv')

lemma attrs_attrs_setattr [simp]: "attrs_attrs (cls_setattr k v cl) = attrs_attrs cl"
  by (simp add: cls_setattr_def)

lemma cls_name_setattr [simp]: "cls_name (cls_setattr k v cl) = cls_name cl"
  by (simp add: cls_setattr_def)

lemma add_repr_getattr:
  "cls_getattr (add_repr cl None) k =
     (if k = ''__repr__''
      then Some (Method (Gen_repr (filter (\<lambda>a. \<not> no_repr a) (attrs_attrs cl))))
      else cls_getattr cl k)"
  by (simp add: add_repr_def)

lemma add_hash_getattr:
  "cls_getattr (add_hash cl None) k =
     (if k = ''__hash__''
      then Some (Method (Gen_hash (filter (\<lambda>a. \<not> no_hash a) (attrs_attrs cl))))
      else cls_getattr cl k)"
  by (simp add: add_hash_def)

lemma add_cmp_getattr:
  "cls_getattr (add_cmp cl attrs_arg) k =
     (case cmp_method k (case attrs_arg of None \<Rightarrow> filter (\<lambda>a. \<not> no_cmp a) (attrs_attrs cl)
                          | Some attrs \<Rightarrow> attrs) of
        Some m \<Rightarrow> Some (Method m) | None \<Rightarrow> cls_getattr cl k)"
  by (simp add: add_cmp_def cmp_method_def Let_def)

lemma add_attrs_attrs [simp]:
  "attrs_attrs (add_repr cl x) = attrs_attrs cl"
  "attrs_attrs (add_cmp cl x) = attrs_attrs cl"
  "attrs_attrs (add_hash cl x) = attrs_attrs cl"
  by (simp_all add: add_repr_def add_cmp_def add_hash_def Let_def)

lemma wrap_before_init:
  "wrap rt nr nc nh ni cl g =
     (case transform_attrs cl of Inl e \<Rightarrow> (Inl e, g)
      | Inr cl1 \<Rightarrow> if \<not> ni then add_init rt (before_init nr nc nh cl1) g
                    else (Inr (before_init nr nc nh cl1), g))"
  by (simp add: wrap_def before_init_def Let_def split: sum.splits)

lemma before_init_attrs [simp]: "attrs_attrs (before_init nr nc nh cl) = attrs_attrs cl"
  by (simp add: before_init_def Let_def)

lemma before_init_getattr:
  "cls_getattr (before_init nr nc nh cl) k =
     (if k = ''__hash__'' \<and> \<not> nh
      then Some (Method (Gen_hash (filter (\<lambda>a. \<not> no_hash a) (attrs_attrs cl))))
      else if cmp_method k [] \<noteq> None \<and> \<not> nc
      then map_option Method (cmp_method k (filter (\<lambda>a. \<not> no_cmp a) (attrs_attrs cl)))
      else if k = ''__repr__'' \<and> \<not> nr
      then Some (Method (Gen_repr (filter (\<lambda>a. \<not> no_repr a) (attrs_attrs cl))))
      else cls_getattr cl k)"
  by (simp add: before_init_def Let_def add_hash_getattr add_cmp_getattr add_repr_getattr
      cmp_method_def)

lemma add_init_Inr:
  assumes "add_init rt cl g = (Inr cl', g')"
  shows "\<exists>init. compile (attrs_to_script (filter (\<lambda>a. \<not> no_init a) (attrs_attrs cl)))
             = Inr (attrs_to_script (filter (\<lambda>a. \<not> no_init a) (attrs_attrs cl)))
           \<and> exec_def (attr_dict_of (filter (\<lambda>a. \<not> no_init a) (attrs_attrs cl)))
               (attrs_to_script (filter (\<lambda>a. \<not> no_init a) (attrs_attrs cl))) = Inr init
           \<and> cl' = cls_setattr ''__init__'' (Method (Gen_init init)) cl"
  using assms
  by (auto simp: add_init_def Let_def compile_def split: sum.splits if_splits)

lemma wrap_Inr:
  assumes "wrap rt nr nc nh ni cl g = (Inr cl', g')"
  shows "\<exists>cl1. transform_attrs cl = Inr cl1
           \<and> (if ni then cl' = before_init nr nc nh cl1
               else add_init rt (before_init nr nc nh cl1) g = (Inr cl', g'))"
  using assms by (auto simp: wrap_before_init split: sum.splits if_splits)

lemma wrap_attrs_attrs:
  assumes "wrap rt nr nc nh ni cl g = (Inr cl', g')" and "transform_attrs cl = Inr cl1"
  shows "attrs_attrs cl' = attrs_attrs cl1"
proof (cases ni)
  case True
  with wrap_Inr [OF assms(1)] assms(2) show ?thesis by auto
next
  case False
  with wrap_Inr [OF assms(1)] assms(2)
  have "add_init rt (before_init nr nc nh cl1) g = (Inr cl', g')" by auto
  from add_init_Inr [OF this] show ?thesis by auto
qed

lemma wrap_getattr:
  assumes "wrap rt nr nc nh ni cl g = (Inr cl', g')" and "transform_attrs cl = Inr cl1"
    and "k \<noteq> ''__init__'' \<or> ni"
  shows "cls_getattr cl' k = cls_getattr (before_init nr nc nh cl1) k"
proof (cases ni)
  case True
  with wrap_Inr [OF assms(1)] assms(2) show ?thesis by auto
next
  case False
  with wrap_Inr [OF assms(1)] assms(2)
  have "add_init rt (before_init nr nc nh cl1) g = (Inr cl', g')" by auto
  from add_init_Inr [OF this] assms(3) False show ?thesis by auto
qed

lemma wrap_init:
  assumes "wrap rt nr nc nh False cl g = (Inr cl', g')" and "transform_attrs cl = Inr cl1"
  shows "\<exists>init. cls_getattr cl' ''__init__'' = Some (Method (Gen_init init))
           \<and> compile (attrs_to_script (filter (\<lambda>a. \<not> no_init a) (attrs_attrs cl1)))
             = Inr (attrs_to_script (filter (\<lambda>a. \<not> no_init a) (attrs_attrs cl1)))
           \<and> exec_def (attr_dict_of (filter (\<lambda>a. \<not> no_init a) (attrs_attrs cl1)))
               (attrs_to_script (filter (\<lambda>a. \<not> no_init a) (attrs_attrs cl1))) = Inr init"
proof -
  from wrap_Inr [OF assms(1)] assms(2)
  have "add_init rt (before_init nr nc nh cl1) g = (Inr cl', g')" by auto
  from add_init_Inr [OF this] show ?thesis by auto
qed

lemma attributes_class:
  "attributes rt (Is_class cl) nr nc nh ni g = Inl r \<longleftrightarrow> wrap rt nr nc nh ni cl g = r"
  by (simp add: attributes_def)

lemma cmp_method_names:
  "k \<in> set cmp_names \<longleftrightarrow> cmp_method k attrs \<noteq> None"
  by (simp add: cmp_names_def cmp_method_def)

text \<open>
  C6. Of a class the decorator returns, each of the four families is installed where
  its flag is False (\<open>__repr__\<close>; the six comparisons; \<open>__hash__\<close>; \<open>__init__\<close>)
  and is what \<open>_transform_attrs\<close> left where its flag is True; every other name of the
  class is what \<open>_transform_attrs\<close> left.
\<close>

theorem attributes_installs_families:
  assumes "attributes rt (Is_class cl) nr nc nh ni g = Inl (Inr cl', g')"
  shows "\<exists>cl1. transform_attrs cl = Inr cl1
    \<and> (if nr then cls_getattr cl' ''__repr__'' = cls_getattr cl1 ''__repr__''
        else \<exists>attrs. cls_getattr cl' ''__repr__'' = Some (Method (Gen_repr attrs)))
    \<and> list_all (\<lambda>k. if nc then cls_getattr cl' k = cls_getattr cl1 k
        else \<exists>attrs m. cmp_method k attrs = Some m \<and> cls_getattr cl' k = Some (Method m))
        cmp_names
    \<and> (if nh then cls_getattr cl' ''__hash__'' = cls_getattr cl1 ''__hash__''
        else \<exists>attrs. cls_getattr cl' ''__hash__'' = Some (Method (Gen_hash attrs)))
    \<and> (if ni then cls_getattr cl' ''__init__'' = cls_getattr cl1 ''__init__''
        else \<exists>init. cls_getattr cl' ''__init__'' = Some (Method (Gen_init init)))
    \<and> (\<forall>k. k \<in> set ([''__repr__'', ''__hash__'', ''__init__''] @ cmp_names)
          \<or> cls_getattr cl' k = cls_getattr cl1 k)"
proof -
  from assms have w: "wrap rt nr nc nh ni cl g = (Inr cl', g')"
    by (simp add: attributes_class)
  from wrap_Inr [OF w] obtain cl1 where t: "transform_attrs cl = Inr cl1" by blast
  note ga = wrap_getattr [OF w t]
  have r: "if nr then cls_getattr cl' ''__repr__'' = cls_getattr cl1 ''__repr__''
        else \<exists>attrs. cls_getattr cl' ''__repr__'' = Some (Method (Gen_repr attrs))"
    by (simp add: ga before_init_getattr cmp_method_def)
  have c: "list_all (\<lambda>k. if nc then cls_getattr cl' k = cls_getattr cl1 k
        else \<exists>attrs m. cmp_method k attrs = Some m \<and> cls_getattr cl' k = Some (Method m))
        cmp_names"
    by (simp add: cmp_names_def ga before_init_getattr cmp_method_def)
  have h: "if nh then cls_getattr cl' ''__hash__'' = cls_getattr cl1 ''__hash__''
        else \<exists>attrs. cls_getattr cl' ''__hash__'' = Some (Method (Gen_hash attrs))"
    by (simp add: ga before_init_getattr cmp_method_def)
  have i: "if ni then cls_getattr cl' ''__init__'' = cls_getattr cl1 ''__init__''
        else \<exists>init. cls_getattr cl' ''__init__'' = Some (Method (Gen_init init))"
  proof (cases ni)
    case True
    then show ?thesis by (simp add: ga before_init_getattr cmp_method_def)
  next
    case False
    with wrap_init [of rt nr nc nh cl g cl' g' cl1] w t show ?thesis by auto
  qed
  have o: "\<forall>k. k \<in> set ([''__repr__'', ''__hash__'', ''__init__''] @ cmp_names)
          \<or> cls_getattr cl' k = cls_getattr cl1 k"
  proof
    fix k
    show "k \<in> set ([''__repr__'', ''__hash__'', ''__init__''] @ cmp_names)
          \<or> cls_getattr cl' k = cls_getattr cl1 k"
    proof (cases "k \<in> set ([''__repr__'', ''__hash__'', ''__init__''] @ cmp_names)")
      case True
      then show ?thesis by simp
    next
      case False
      then have n: "k \<noteq> ''__repr__''" "k \<noteq> ''__hash__''" "k \<noteq> ''__init__''"
        "cmp_method k [] = None"
        by (auto simp: cmp_names_def cmp_method_def)
      then show ?thesis by (simp add: ga before_init_getattr)
    qed
  qed
  from t r c h i o show ?thesis by blast
qed

text \<open>
  C10. Each of the six comparison methods the decorator installs returns
  \<open>NotImplemented\<close> when the other operand is no instance of the class of \<open>self\<close>,
  whatever \<open>getattr\<close> and the comparison of tuples would do.
\<close>

theorem comparison_NotImplemented:
  assumes "attributes rt (Is_class cl) nr False nh ni g = Inl (Inr cl', g')"
    and "k \<in> set cmp_names"
    and "\<not> rt_isinstance rt other (class_of self)"
  shows "\<exists>m. cls_getattr cl' k = Some (Method m)
           \<and> call_cmp rt m self other = Inr PNotImplemented"
proof -
  from assms(1) have w: "wrap rt nr False nh ni cl g = (Inr cl', g')"
    by (simp add: attributes_class)
  from wrap_Inr [OF w] obtain cl1 where t: "transform_attrs cl = Inr cl1" by blast
  from assms(2) have k: "k \<noteq> ''__init__''" "k \<noteq> ''__hash__''"
    by (auto simp: cmp_names_def)
  let ?attrs = "filter (\<lambda>a. \<not> no_cmp a) (attrs_attrs cl1)"
  from assms(2) obtain m where m: "cmp_method k ?attrs = Some m"
    using cmp_method_names [of k ?attrs] by auto
  then have "cmp_method k [] \<noteq> None"
    using cmp_method_names [of k "[]"] assms(2) by simp
  with m k have g: "cls_getattr cl' k = Some (Method m)"
    by (simp add: wrap_getattr [OF w t] before_init_getattr)
  from m assms(3) have "call_cmp rt m self other = Inr PNotImplemented"
    by (auto simp: cmp_method_def cmp_eq_def cmp_ne_def cmp_lt_def cmp_le_def cmp_gt_def
        cmp_ge_def and_then_def split: if_splits)
  with g show ?thesis by blast
qed

lemma and_then_Inr:
  "and_then r f = Inr y \<longleftrightarrow> (\<exists>x. r = Inr x \<and> f x = Inr y)"
  by (cases r) (simp_all add: and_then_def)

lemma and_then_simps [simp]:
  "and_then (Inl e) f = Inl e"
  "and_then (Inr x) f = f x"
  by (simp_all add: and_then_def)

text \<open>
  C9 (as amended). For a class the decorator gave \<open>__eq__\<close> and \<open>__hash__\<close> and none
  of whose attributes sets \<open>no_cmp\<close> or \<open>no_hash\<close>, and where \<open>hash\<close> gives tuples
  that compare equal the same result: if the generated \<open>__eq__\<close> returns True on
  \<open>x\<close> and \<open>y\<close> and the generated \<open>__hash__\<close> returns a number on \<open>x\<close>, then it
  returns the same number on \<open>y\<close>.
\<close>

theorem eq_implies_same_hash:
  assumes "attributes rt (Is_class cl) nr False False ni g = Inl (Inr cl', g')"
    and "list_all (\<lambda>a. \<not> no_cmp a \<and> \<not> no_hash a) (attrs_attrs cl')"
    and "\<forall>s t. rt_eq rt (PTuple s) (PTuple t) = Inr True
           \<longrightarrow> rt_hash rt (PTuple s) = rt_hash rt (PTuple t)"
    and "cls_getattr cl' ''__eq__'' = Some (Method e)"
    and "cls_getattr cl' ''__hash__'' = Some (Method h)"
    and "call_cmp rt e x y = Inr (PBool True)"
    and "call_hash rt h x = Inr n"
  shows "call_hash rt h y = Inr n"
proof -
  from assms(1) have w: "wrap rt nr False False ni cl g = (Inr cl', g')"
    by (simp add: attributes_class)
  from wrap_Inr [OF w] obtain cl1 where t: "transform_attrs cl = Inr cl1" by blast
  have a: "attrs_attrs cl' = attrs_attrs cl1" by (rule wrap_attrs_attrs [OF w t])
  from assms(2) have f: "filter (\<lambda>a. \<not> no_cmp a) (attrs_attrs cl1) = attrs_attrs cl1"
    "filter (\<lambda>a. \<not> no_hash a) (attrs_attrs cl1) = attrs_attrs cl1"
    by (auto simp: a list_all_iff)
  from assms(4) have e: "e = Gen_eq (attrs_attrs cl1)"
    by (simp add: wrap_getattr [OF w t] before_init_getattr cmp_method_def f)
  from assms(5) have h: "h = Gen_hash (attrs_attrs cl1)"
    by (simp add: wrap_getattr [OF w t] before_init_getattr cmp_method_def f)
  from assms(6) e obtain t1 t2 where
    t12: "attrs_to_tuple rt x (attrs_attrs cl1) = Inr t1"
      "attrs_to_tuple rt y (attrs_attrs cl1) = Inr t2"
      "rt_eq rt (PTuple t1) (PTuple t2) = Inr True"
    by (auto simp: cmp_eq_def and_then_Inr split: if_splits)
  with assms(3) have "rt_hash rt (PTuple t1) = rt_hash rt (PTuple t2)" by blast
  with t12 h have "call_hash rt h x = call_hash rt h y" by (simp add: hash_method_def)
  with assms(7) show ?thesis by simp
qed

lemma make_class_pairs_state:
  "make_class_pairs ns g = (ps, g1) \<Longrightarrow>
     CountingAttr_counter g1 = CountingAttr_counter g + length ns
     \<and> linecache_cache g1 = linecache_cache g"
proof (induction ns arbitrary: g ps g1)
  case Nil
  then show ?case by simp
next
  case (Cons n ns)
  obtain ca ga where a: "attr NOTHING None False False False False g = (ca, ga)"
    by (cases "attr NOTHING None False False False False g")
  obtain ps' gb where r: "make_class_pairs ns ga = (ps', gb)"
    by (cases "make_class_pairs ns ga")
  from Cons.prems a r have g1: "g1 = gb" by simp
  from a have "CountingAttr_counter ga = CountingAttr_counter g + 1
    \<and> linecache_cache ga = linecache_cache g"
    by (auto simp: attr_def CountingAttr_init_def Let_def)
  with Cons.IH [OF r] g1 show ?case by simp
qed

text \<open>
  What the functions that take the state of the module do to it. A call of \<open>attr()\<close>
  adds one to the counter and leaves \<open>linecache.cache\<close> as it is. The decorator
  (applied at once or later, or through \<open>make_class\<close>, which first calls \<open>attr()\<close>
  once for each name of a list) leaves the counter as it is and changes at most one
  entry of \<open>linecache.cache\<close>, and none when it raises or when \<open>no_init\<close> is set.
\<close>

lemma module_state_frame:
  "snd (attr d v r c h i g) = g\<lparr>CountingAttr_counter := CountingAttr_counter g + 1\<rparr>
   \<and> (snd (wrap rt nr nc nh ni cl g) = g
       \<or> (\<exists>cl'. fst (wrap rt nr nc nh ni cl g) = Inr cl') \<and> ni = False
          \<and> one_cache_entry g (snd (wrap rt nr nc nh ni cl g)))
   \<and> attributes rt (Is_class cl) nr nc nh ni g = Inl (wrap rt nr nc nh ni cl g)
   \<and> attributes rt (Not_class x) nr nc nh ni g = Inr (wrap rt nr nc nh ni)
   \<and> (\<exists>g1 c. CountingAttr_counter g1 =
           CountingAttr_counter g + (case a of Attrs_list ns \<Rightarrow> length ns | _ \<Rightarrow> 0)
         \<and> linecache_cache g1 = linecache_cache g
         \<and> (make_class rt nm a nr nc nh ni g = wrap rt nr nc nh ni c g1
             \<or> make_class rt nm a nr nc nh ni g = (Inl TypeError, g)))"
proof (intro conjI)
  show "snd (attr d v r c h i g) = g\<lparr>CountingAttr_counter := CountingAttr_counter g + 1\<rparr>"
    by (simp add: attr_def CountingAttr_init_def Let_def)
next
  show "snd (wrap rt nr nc nh ni cl g) = g
       \<or> (\<exists>cl'. fst (wrap rt nr nc nh ni cl g) = Inr cl') \<and> ni = False
          \<and> one_cache_entry g (snd (wrap rt nr nc nh ni cl g))"
    by (auto simp: wrap_before_init add_init_def Let_def one_cache_entry_def
        split: sum.splits)
next
  show "attributes rt (Is_class cl) nr nc nh ni g = Inl (wrap rt nr nc nh ni cl g)"
    by (simp add: attributes_def)
next
  show "attributes rt (Not_class x) nr nc nh ni g = Inr (wrap rt nr nc nh ni)"
    by (simp add: attributes_def)
next
  show "\<exists>g1 c. CountingAttr_counter g1 =
           CountingAttr_counter g + (case a of Attrs_list ns \<Rightarrow> length ns | _ \<Rightarrow> 0)
         \<and> linecache_cache g1 = linecache_cache g
         \<and> (make_class rt nm a nr nc nh ni g = wrap rt nr nc nh ni c g1
             \<or> make_class rt nm a nr nc nh ni g = (Inl TypeError, g))"
  proof (cases a)
    case (Attrs_dict d)
    then have "make_class rt nm a nr nc nh ni g = wrap rt nr nc nh ni (new_class nm d) g"
      by (simp add: make_class_def attributes_def)
    with Attrs_dict show ?thesis by auto
  next
    case (Attrs_list ns)
    obtain ps g1 where m: "make_class_pairs ns g = (ps, g1)" by (cases "make_class_pairs ns g")
    with Attrs_list
    have "make_class rt nm a nr nc nh ni g = wrap rt nr nc nh ni (new_class nm (dict_of_pairs ps)) g1"
      by (simp add: make_class_def attributes_def)
    moreover from make_class_pairs_state [OF m]
    have "CountingAttr_counter g1 = CountingAttr_counter g + length ns
      \<and> linecache_cache g1 = linecache_cache g" by simp
    ultimately show ?thesis using Attrs_list by auto
  next
    case (Attrs_other v)
    then have "make_class rt nm a nr nc nh ni g = (Inl TypeError, g)"
      by (simp add: make_class_def)
    then show ?thesis using Attrs_other by auto
  qed
qed

subsection \<open>The script of the initializer\<close>

lemma attrs_to_script_step_eq:
  "attrs_to_script_step a (ls, ps) = (ls @ attr_lines a, ps @ [attr_param a])"
  by (simp add: attrs_to_script_step_def attr_lines_def attr_param_def Let_def)

lemma attrs_to_script_loop_eq:
  "attrs_to_script_loop attrs (ls, ps) =
     (ls @ concat (map attr_lines attrs), ps @ map attr_param attrs)"
  by (induction attrs arbitrary: ls ps) (simp_all add: attrs_to_script_step_eq)

lemma attrs_to_script_eq:
  "attrs_to_script attrs =
     \<lparr>script_args = map attr_param attrs, script_lines = concat (map attr_lines attrs)\<rparr>"
  by (simp add: attrs_to_script_def attrs_to_script_loop_eq)

lemma param_name_attr_param [simp]:
  "param_name (attr_param a) = lstrip_underscore (name a)"
  by (simp add: attr_param_def)

lemma assigned_attr_lines [simp]:
  "concat (map assigned (attr_lines a)) = [name a]"
  by (simp add: attr_lines_def)

lemma assigned_script_lines:
  "concat (map assigned (concat (map attr_lines attrs))) = map name attrs"
  by (induction attrs) simp_all

lemma attr_dict_of_Cons:
  "attr_dict_of (b # bs) n =
     (case attr_dict_of bs n of Some a \<Rightarrow> Some a
      | None \<Rightarrow> if n = name b then Some b else None)"
  by (simp add: attr_dict_of_def map_add_def split: option.splits)

lemma attr_dict_of_None:
  "n \<notin> name ` set attrs \<Longrightarrow> attr_dict_of attrs n = None"
proof (induction attrs)
  case Nil
  then show ?case by (simp add: attr_dict_of_def)
next
  case (Cons b bs)
  then show ?case by (simp add: attr_dict_of_Cons)
qed

lemma attr_dict_of_distinct:
  "distinct (map name attrs) \<Longrightarrow> a \<in> set attrs \<Longrightarrow> attr_dict_of attrs (name a) = Some a"
proof (induction attrs)
  case Nil
  then show ?case by simp
next
  case (Cons b bs)
  show ?case
  proof (cases "a \<in> set bs")
    case True
    with Cons show ?thesis by (simp add: attr_dict_of_Cons)
  next
    case False
    with Cons.prems have ab: "a = b" and "name b \<notin> name ` set bs" by auto
    then have "attr_dict_of bs (name b) = None" by (simp add: attr_dict_of_None)
    with ab show ?thesis by (simp add: attr_dict_of_Cons)
  qed
qed

text \<open>The parameters of the function object: the defaults are those of the attributes.\<close>

lemma eval_params_Cons:
  "ad (name b) = Some b \<Longrightarrow>
     eval_params ad (attr_param b # ps) =
       and_then (eval_params ad ps)
         (\<lambda>r. Inr ((lstrip_underscore (name b), init_default b) # r))"
  by (simp add: attr_param_def init_default_def and_then_def split: sum.splits)

lemma eval_params_attrs:
  assumes "\<forall>a \<in> set bs. ad (name a) = Some a"
  shows "eval_params ad (map attr_param bs)
           = Inr (map (\<lambda>a. (lstrip_underscore (name a), init_default a)) bs)"
  using assms
proof (induction bs)
  case Nil
  then show ?case by simp
next
  case (Cons b bs)
  then have ih: "eval_params ad (map attr_param bs)
           = Inr (map (\<lambda>a. (lstrip_underscore (name a), init_default a)) bs)"
    and b: "ad (name b) = Some b" by auto
  have "eval_params ad (map attr_param (b # bs)) =
      and_then (eval_params ad (map attr_param bs))
         (\<lambda>r. Inr ((lstrip_underscore (name b), init_default b) # r))"
    using eval_params_Cons [of ad b, OF b] by simp
  also have "\<dots> = Inr (map (\<lambda>a. (lstrip_underscore (name a), init_default a)) (b # bs))"
    unfolding ih by simp
  finally show ?case .
qed

lemma exec_def_attrs:
  assumes "distinct (map name attrs)"
  shows "exec_def (attr_dict_of attrs) (attrs_to_script attrs) =
           Inr \<lparr>fn_params = map (\<lambda>a. (lstrip_underscore (name a), init_default a)) attrs,
                fn_body = concat (map attr_lines attrs),
                fn_attr_dict = attr_dict_of attrs\<rparr>"
proof -
  have "\<forall>a \<in> set attrs. attr_dict_of attrs (name a) = Some a"
    using assms by (simp add: attr_dict_of_distinct)
  from eval_params_attrs [OF this] show ?thesis
    by (simp add: exec_def_def attrs_to_script_eq and_then_def)
qed

lemma compile_distinct_params:
  "compile (attrs_to_script attrs) = Inr s \<Longrightarrow>
     distinct (map (\<lambda>a. lstrip_underscore (name a)) attrs)"
  by (auto simp: compile_def attrs_to_script_eq comp_def split: if_splits)

text \<open>The names \<open>_transform_attrs\<close> gives are the keys of the dictionary: no two are the same.\<close>

lemma counting_items_keys: "fst ` set (counting_items d) \<subseteq> fst ` set d"
  by (induction d rule: counting_items.induct) auto

lemma counting_items_distinct:
  "distinct (map fst d) \<Longrightarrow> distinct (map fst (counting_items d))"
proof (induction d rule: counting_items.induct)
  case 1
  then show ?case by simp
next
  case (2 nm ca xs)
  with counting_items_keys [of xs] show ?case by auto
qed simp_all

lemma transform_attrs_names_distinct:
  assumes "distinct (map fst (cls_dict cl))" and "transform_attrs cl = Inr cl'"
  shows "distinct (map name (attrs_attrs cl'))"
proof -
  let ?s = "sort_key (\<lambda>e. counter (snd e)) (counting_items (cls_dict cl))"
  have "map name (attrs_attrs cl') = map fst ?s"
    by (simp add: transform_attrs_sorted [OF assms(2)] case_prod_unfold comp_def)
  moreover have "mset (map fst ?s) = mset (map fst (counting_items (cls_dict cl)))"
    by (metis mset_map mset_sort)
  ultimately show ?thesis
    using counting_items_distinct [OF assms(1)] by (metis mset_eq_imp_distinct_iff)
qed

subsection \<open>Calling the initializer\<close>

lemma exec_stmts_append:
  "exec_stmts fn locals self (xs @ ys) =
     and_then (exec_stmts fn locals self xs) (\<lambda>self'. exec_stmts fn locals self' ys)"
proof (induction xs arbitrary: self)
  case Nil
  then show ?case by simp
next
  case (Cons x xs)
  then show ?case by (cases "exec_stmt fn locals self x") simp_all
qed

lemma exec_stmt_frame:
  "exec_stmt fn locals self st = Inr self' \<Longrightarrow> n \<notin> set (assigned st) \<Longrightarrow> self' n = self n"
proof (induction st arbitrary: self')
  case (Call_validator m x)
  then show ?case
    by (auto simp: and_then_Inr split: option.splits)
next
  case (Assign_self m e)
  then show ?case by (auto simp: and_then_Inr)
next
  case (If_is_not a b s1 s2)
  then show ?case by (auto simp: and_then_Inr split: if_splits)
qed

lemma exec_stmts_frame:
  "exec_stmts fn locals self sts = Inr self' \<Longrightarrow> n \<notin> set (concat (map assigned sts))
     \<Longrightarrow> self' n = self n"
proof (induction sts arbitrary: self)
  case Nil
  then show ?case by simp
next
  case (Cons st sts)
  from Cons.prems(1) obtain s1 where s1: "exec_stmt fn locals self st = Inr s1"
    "exec_stmts fn locals s1 sts = Inr self'"
    by (auto simp: and_then_Inr)
  from Cons.prems(2) have n: "n \<notin> set (assigned st)" "n \<notin> set (concat (map assigned sts))"
    by auto
  from Cons.IH [OF s1(2) n(2)] exec_stmt_frame [OF s1(1) n(1)] show ?case by simp
qed

lemma is_Factory_not_NOTHING: "is_Factory d \<Longrightarrow> d \<noteq> NOTHING"
  by (auto simp: is_Factory_def NOTHING_def)

text \<open>The statements of one attribute set its field, from the value of its parameter.\<close>

lemma exec_attr_lines:
  assumes "exec_stmts fn locals self (attr_lines b) = Inr self1"
    and "locals ''NOTHING'' = None" and "locals ''attr_dict'' = None"
    and "fn_attr_dict fn (name b) = Some b"
    and "locals (lstrip_underscore (name b)) = Some v"
  shows "\<exists>w. self1 = self(name b \<mapsto> w)
           \<and> (if is_Factory (default_val b) \<and> v = NOTHING
               then default_val b = Factory (Inr w) else w = v)"
proof -
  let ?assign = "if default_val b \<noteq> NOTHING \<and> is_Factory (default_val b)
        then If_is_not (Name (lstrip_underscore (name b))) (Name ''NOTHING'')
               (Assign_self (name b) (Name (lstrip_underscore (name b))))
               (Assign_self (name b) (Factory_call (name b)))
        else Assign_self (name b) (Name (lstrip_underscore (name b)))"
  have "\<exists>s0. exec_stmts fn locals self
          (if validator b \<noteq> None then [Call_validator (name b) (name b)] else []) = Inr s0
        \<and> exec_stmts fn locals s0 [?assign] = Inr self1"
    using assms(1) unfolding attr_lines_def exec_stmts_append by (simp add: and_then_Inr)
  then obtain s0 where v: "exec_stmts fn locals self
          (if validator b \<noteq> None then [Call_validator (name b) (name b)] else []) = Inr s0"
    and a: "exec_stmts fn locals s0 [?assign] = Inr self1" by blast
  have "\<And>n. s0 n = self n"
    using v by (intro exec_stmts_frame [of fn locals self _ s0]) (auto split: if_splits)
  then have s0: "s0 = self" by auto
  show ?thesis
  proof (cases "is_Factory (default_val b)")
    case False
    with a s0 assms(5) show ?thesis by (auto simp: and_then_Inr)
  next
    case True
    then obtain f where f: "default_val b = Factory f" by (auto simp: is_Factory_def split: pyval.splits)
    from True have nn: "default_val b \<noteq> NOTHING" by (rule is_Factory_not_NOTHING)
    show ?thesis
    proof (cases "v = NOTHING")
      case True
      with a s0 assms(2-5) f nn \<open>is_Factory (default_val b)\<close> show ?thesis
        by (auto simp: and_then_Inr lookup_attr_def)
    next
      case False
      with a s0 assms(2-5) f nn \<open>is_Factory (default_val b)\<close> show ?thesis
        by (auto simp: and_then_Inr lookup_attr_def)
    qed
  qed
qed

lemma exec_attrs_lines:
  assumes "exec_stmts fn locals self (concat (map attr_lines bs)) = Inr self'"
    and "distinct (map name bs)"
    and "locals ''NOTHING'' = None" and "locals ''attr_dict'' = None"
    and "\<forall>b \<in> set bs. fn_attr_dict fn (name b) = Some b"
    and "b \<in> set bs" and "locals (lstrip_underscore (name b)) = Some v"
  shows "\<exists>w. self' (name b) = Some w
           \<and> (if is_Factory (default_val b) \<and> v = NOTHING
               then default_val b = Factory (Inr w) else w = v)"
  using assms(1,2,5,6)
proof (induction bs arbitrary: self)
  case Nil
  then show ?case by simp
next
  case (Cons c cs)
  from Cons.prems(1) obtain s1 where s1: "exec_stmts fn locals self (attr_lines c) = Inr s1"
    and rest: "exec_stmts fn locals s1 (concat (map attr_lines cs)) = Inr self'"
    by (auto simp: exec_stmts_append and_then_Inr)
  show ?case
  proof (cases "b \<in> set cs")
    case True
    with Cons.IH [OF rest] Cons.prems show ?thesis by auto
  next
    case False
    with Cons.prems have bc: "b = c" and nb: "name b \<notin> set (map name cs)" by auto
    from Cons.prems bc have "fn_attr_dict fn (name b) = Some b" by auto
    from exec_attr_lines [OF s1 [folded bc] assms(3,4) this assms(7)]
    obtain w where w: "s1 = self(name b \<mapsto> w)"
      "if is_Factory (default_val b) \<and> v = NOTHING
               then default_val b = Factory (Inr w) else w = v" by blast
    from nb have "name b \<notin> set (concat (map assigned (concat (map attr_lines cs))))"
      by (simp add: assigned_script_lines)
    from exec_stmts_frame [OF rest this] w show ?thesis by auto
  qed
qed

text \<open>What a call that binds its arguments gives the parameters.\<close>

lemma bind_args_Inr:
  assumes "bind_args ps pos kw = Inr locals" and "distinct (map fst ps)"
  shows "x \<notin> set (map fst ps) \<Longrightarrow> locals x = None"
    and "(x, d) \<in> set ps \<Longrightarrow>
           locals x = (case given_args ps pos kw x of Some v \<Rightarrow> Some v | None \<Rightarrow> d)
           \<and> locals x \<noteq> None"
proof -
  from assms(1) have c: "\<not> list_ex (\<lambda>k. k \<notin> set (map fst ps)) (map fst kw)"
    "\<not> list_ex (\<lambda>(x, d). given_args ps pos kw x = None \<and> d = None) ps"
    and l: "locals = (\<lambda>x. case given_args ps pos kw x of Some v \<Rightarrow> Some v
                        | None \<Rightarrow> (case map_of ps x of Some d \<Rightarrow> d | None \<Rightarrow> None))"
    by (auto simp: bind_args_def Let_def split: if_splits)
  {
    assume x: "x \<notin> set (map fst ps)"
    from c(1) have "fst ` set kw \<subseteq> set (map fst ps)"
      by (auto simp: list_ex_iff)
    with x have "map_of kw x = None" by (metis map_of_eq_None_iff subsetD)
    moreover have "map_of (zip (map fst ps) pos) x = None"
      using x by (metis map_of_eq_None_iff set_zip_leftD imageE prod.collapse)
    moreover from x have "map_of ps x = None" by (simp add: map_of_eq_None_iff)
    ultimately show "locals x = None" by (simp add: l given_args_def map_add_def)
  }
  {
    assume xd: "(x, d) \<in> set ps"
    with assms(2) have m: "map_of ps x = Some d" by simp
    from c(2) xd have "\<not> (given_args ps pos kw x = None \<and> d = None)"
      by (auto simp: list_ex_iff)
    with m show "locals x = (case given_args ps pos kw x of Some v \<Rightarrow> Some v | None \<Rightarrow> d)
           \<and> locals x \<noteq> None"
      by (auto simp: l split: option.splits)
  }
qed

text \<open>
  C1 (as amended). Let the decorator have installed \<open>__init__\<close> in a class whose
  dictionary has no key twice, let no parameter of it be named \<open>NOTHING\<close> or
  \<open>attr_dict\<close>, and let a call of it return. Then, for each attribute with
  \<open>no_init\<close> False: where the call gives its argument, the field is the argument,
  unless the default is a \<open>Factory\<close> and the argument is \<open>NOTHING\<close>; where the call
  omits it and the default is no \<open>Factory\<close>, the default is not \<open>NOTHING\<close> and the
  field is the default; where the default is a \<open>Factory\<close> and the argument is omitted
  or is \<open>NOTHING\<close>, the factory has returned and the field is what it returned.
\<close>

theorem generated_init_sets_fields:
  assumes "attributes rt (Is_class cl) nr nc nh False g = Inl (Inr cl', g')"
    and "distinct (map fst (cls_dict cl))"
    and "cls_getattr cl' ''__init__'' = Some (Method (Gen_init init))"
    and "''NOTHING'' \<notin> set (map fst (fn_params init))"
    and "''attr_dict'' \<notin> set (map fst (fn_params init))"
    and "call_init init self pos kw = Inr self'"
    and "a \<in> set (attrs_attrs cl')" and "\<not> no_init a"
  shows "case given_args (fn_params init) pos kw (lstrip_underscore (name a)) of
           Some v \<Rightarrow>
             if is_Factory (default_val a) \<and> v = NOTHING
             then \<exists>r. default_val a = Factory (Inr r) \<and> self' (name a) = Some r
             else self' (name a) = Some v
         | None \<Rightarrow>
             if is_Factory (default_val a)
             then \<exists>r. default_val a = Factory (Inr r) \<and> self' (name a) = Some r
             else default_val a \<noteq> NOTHING \<and> self' (name a) = Some (default_val a)"
proof -
  from assms(1) have w: "wrap rt nr nc nh False cl g = (Inr cl', g')"
    by (simp add: attributes_class)
  from wrap_Inr [OF w] obtain cl1 where t: "transform_attrs cl = Inr cl1" by blast
  have aa: "attrs_attrs cl' = attrs_attrs cl1" by (rule wrap_attrs_attrs [OF w t])
  let ?I = "filter (\<lambda>a. \<not> no_init a) (attrs_attrs cl1)"
  have d: "distinct (map name ?I)"
    using transform_attrs_names_distinct [OF assms(2) t] by (simp add: distinct_map_filter)
  from wrap_init [OF w t] assms(3)
  have c: "compile (attrs_to_script ?I) = Inr (attrs_to_script ?I)"
    and e: "exec_def (attr_dict_of ?I) (attrs_to_script ?I) = Inr init" by auto
  from e have init: "init =
      \<lparr>fn_params = map (\<lambda>a. (lstrip_underscore (name a), init_default a)) ?I,
       fn_body = concat (map attr_lines ?I), fn_attr_dict = attr_dict_of ?I\<rparr>"
    by (simp add: exec_def_attrs [OF d])
  have dp: "distinct (map fst (fn_params init))"
    using compile_distinct_params [OF c] by (simp add: init comp_def)
  from assms(6) obtain locals where b: "bind_args (fn_params init) pos kw = Inr locals"
    and x: "exec_stmts init locals self (fn_body init) = Inr self'"
    by (auto simp: call_init_def and_then_Inr)
  from assms(7,8) aa have aI: "a \<in> set ?I" by simp
  then have "(lstrip_underscore (name a), init_default a) \<in> set (fn_params init)"
    by (auto simp: init)
  note bl = bind_args_Inr(2) [OF b dp this]
  from bl have l: "locals (lstrip_underscore (name a)) =
        (case given_args (fn_params init) pos kw (lstrip_underscore (name a)) of
           Some v \<Rightarrow> Some v | None \<Rightarrow> init_default a)"
    by (rule conjunct1)
  from bl have ne: "locals (lstrip_underscore (name a)) \<noteq> None"
    by (rule conjunct2)
  from ne obtain v where v: "locals (lstrip_underscore (name a)) = Some v" by blast
  have n: "locals ''NOTHING'' = None" "locals ''attr_dict'' = None"
    using bind_args_Inr(1) [OF b dp] assms(4,5) by auto
  have ad: "\<forall>b \<in> set ?I. fn_attr_dict init (name b) = Some b"
    using attr_dict_of_distinct [OF d] by (simp add: init)
  from x have "exec_stmts init locals self (concat (map attr_lines ?I)) = Inr self'"
    by (simp add: init)
  from exec_attrs_lines [OF this d n ad aI v]
  obtain w where w: "self' (name a) = Some w"
    "if is_Factory (default_val a) \<and> v = NOTHING
       then default_val a = Factory (Inr w) else w = v" by blast
  show ?thesis
  proof (cases "given_args (fn_params init) pos kw (lstrip_underscore (name a))")
    case None
    with l v have iv: "init_default a = Some v" by simp
    show ?thesis
    proof (cases "is_Factory (default_val a)")
      case True
      with iv have "v = NOTHING"
        by (auto simp: init_default_def split: if_splits)
      with True w None show ?thesis by auto
    next
      case False
      with iv have "default_val a \<noteq> NOTHING \<and> v = default_val a"
        by (auto simp: init_default_def split: if_splits)
      with False w None show ?thesis by auto
    qed
  next
    case (Some u)
    with l v have "u = v" by simp
    with Some w show ?thesis by auto
  qed
qed





text \<open>
  C5. \<open>NOTHING\<close> is not \<open>None\<close>; copying it, deeply or not, gives \<open>NOTHING\<close>
  itself; the parameter \<open>_attrs_to_script\<close> writes for an attribute has no default
  exactly when the default of the attribute is \<open>NOTHING\<close>, and has one when it is
  \<open>None\<close>; and for \<open>_transform_attrs\<close> an attribute without default after one with
  the default \<open>None\<close> is an error, as the other order is not.
\<close>

theorem NOTHING_is_the_sentinel:
  "NOTHING \<noteq> PNone
   \<and> Nothing_copy NOTHING = NOTHING \<and> Nothing_deepcopy NOTHING memo = NOTHING
   \<and> (map param_default (script_args (attrs_to_script [a])) = [None])
       = (default_val a = NOTHING)
   \<and> map param_default (script_args (attrs_to_script [a\<lparr>default_val := PNone\<rparr>]))
       = [Some (Attr_default (name a))]
   \<and> transform_loop [(n1, ca1\<lparr>default_val := PNone\<rparr>), (n2, ca2\<lparr>default_val := NOTHING\<rparr>)]
        False c = Inl ValueError
   \<and> (\<exists>c'. transform_loop [(n1, ca1\<lparr>default_val := NOTHING\<rparr>), (n2, ca2\<lparr>default_val := PNone\<rparr>)]
        False c = Inr c')"
  by (simp add: NOTHING_def Nothing_copy_def Nothing_deepcopy_def attrs_to_script_eq
      attr_param_def is_Factory_def Let_def from_counting_attr_def)

subsection \<open>When the initializer returns\<close>

lemma exec_attr_lines_returns:
  assumes "locals ''NOTHING'' = None" and "locals ''attr_dict'' = None"
    and "fn_attr_dict fn (name b) = Some b"
    and "locals (lstrip_underscore (name b)) = Some v"
    and "case validator b of None \<Rightarrow> True
         | Some check \<Rightarrow> lstrip_underscore (name b) = name b \<and> check v = None"
    and "\<forall>f. default_val b = Factory f \<longrightarrow> (\<exists>r. f = Inr r)"
  shows "\<exists>self'. exec_stmts fn locals self (attr_lines b) = Inr self'"
proof -
  have v: "exec_stmts fn locals self
      (if validator b \<noteq> None then [Call_validator (name b) (name b)] else []) = Inr self"
    using assms(2-5) by (auto simp: lookup_attr_def split: option.splits)
  show ?thesis
  proof (cases "is_Factory (default_val b)")
    case False
    with v assms(4) show ?thesis
      by (simp add: attr_lines_def exec_stmts_append)
  next
    case True
    then obtain f where f: "default_val b = Factory f"
      by (auto simp: is_Factory_def split: pyval.splits)
    with assms(6) obtain r where r: "f = Inr r" by blast
    from True have nn: "default_val b \<noteq> NOTHING" by (rule is_Factory_not_NOTHING)
    from v assms(1-4) True nn f r show ?thesis
      by (simp add: attr_lines_def exec_stmts_append lookup_attr_def)
  qed
qed

lemma exec_attrs_lines_returns:
  assumes "locals ''NOTHING'' = None" and "locals ''attr_dict'' = None"
    and "\<forall>b \<in> set bs. fn_attr_dict fn (name b) = Some b
           \<and> (\<exists>v. locals (lstrip_underscore (name b)) = Some v
                \<and> (case validator b of None \<Rightarrow> True
                    | Some check \<Rightarrow> lstrip_underscore (name b) = name b \<and> check v = None))
           \<and> (\<forall>f. default_val b = Factory f \<longrightarrow> (\<exists>r. f = Inr r))"
  shows "\<exists>self'. exec_stmts fn locals self (concat (map attr_lines bs)) = Inr self'"
  using assms(3)
proof (induction bs arbitrary: self)
  case Nil
  then show ?case by simp
next
  case (Cons c cs)
  then obtain v where c: "fn_attr_dict fn (name c) = Some c"
    "locals (lstrip_underscore (name c)) = Some v"
    "case validator c of None \<Rightarrow> True
         | Some check \<Rightarrow> lstrip_underscore (name c) = name c \<and> check v = None"
    "\<forall>f. default_val c = Factory f \<longrightarrow> (\<exists>r. f = Inr r)" by auto
  from exec_attr_lines_returns [OF assms(1,2) c]
  obtain s1 where s1: "exec_stmts fn locals self (attr_lines c) = Inr s1" by blast
  from Cons.IH [of s1] Cons.prems
  obtain s2 where "exec_stmts fn locals s1 (concat (map attr_lines cs)) = Inr s2" by auto
  with s1 show ?case by (simp add: exec_stmts_append)
qed

text \<open>
  A call of the generated \<open>__init__\<close> returns where it binds its arguments, every
  validator belongs to an attribute whose name has no leading underscore and accepts
  the value of its parameter, and every factory returns (no parameter being named
  \<open>NOTHING\<close> or \<open>attr_dict\<close>).
\<close>

lemma generated_init_returns:
  assumes "attributes rt (Is_class cl) nr nc nh False g = Inl (Inr cl', g')"
    and "distinct (map fst (cls_dict cl))"
    and "cls_getattr cl' ''__init__'' = Some (Method (Gen_init init))"
    and "''NOTHING'' \<notin> set (map fst (fn_params init))"
    and "''attr_dict'' \<notin> set (map fst (fn_params init))"
    and "bind_args (fn_params init) pos kw = Inr locals"
    and "\<forall>a \<in> set (attrs_attrs cl'). \<not> no_init a \<longrightarrow>
           (case validator a of None \<Rightarrow> True
            | Some check \<Rightarrow> lstrip_underscore (name a) = name a
                \<and> (\<forall>v. locals (name a) = Some v \<longrightarrow> check v = None))
           \<and> (\<forall>f. default_val a = Factory f \<longrightarrow> (\<exists>r. f = Inr r))"
  shows "\<exists>self'. call_init init self pos kw = Inr self'"
proof -
  from assms(1) have w: "wrap rt nr nc nh False cl g = (Inr cl', g')"
    by (simp add: attributes_class)
  from wrap_Inr [OF w] obtain cl1 where t: "transform_attrs cl = Inr cl1" by blast
  have aa: "attrs_attrs cl' = attrs_attrs cl1" by (rule wrap_attrs_attrs [OF w t])
  let ?I = "filter (\<lambda>a. \<not> no_init a) (attrs_attrs cl1)"
  have d: "distinct (map name ?I)"
    using transform_attrs_names_distinct [OF assms(2) t] by (simp add: distinct_map_filter)
  from wrap_init [OF w t] assms(3)
  have c: "compile (attrs_to_script ?I) = Inr (attrs_to_script ?I)"
    and e: "exec_def (attr_dict_of ?I) (attrs_to_script ?I) = Inr init" by auto
  from e have init: "init =
      \<lparr>fn_params = map (\<lambda>a. (lstrip_underscore (name a), init_default a)) ?I,
       fn_body = concat (map attr_lines ?I), fn_attr_dict = attr_dict_of ?I\<rparr>"
    by (simp add: exec_def_attrs [OF d])
  have dp: "distinct (map fst (fn_params init))"
    using compile_distinct_params [OF c] by (simp add: init comp_def)
  have n: "locals ''NOTHING'' = None" "locals ''attr_dict'' = None"
    using bind_args_Inr(1) [OF assms(6) dp] assms(4,5) by auto
  have "\<forall>b \<in> set ?I. fn_attr_dict init (name b) = Some b
           \<and> (\<exists>v. locals (lstrip_underscore (name b)) = Some v
                \<and> (case validator b of None \<Rightarrow> True
                    | Some check \<Rightarrow> lstrip_underscore (name b) = name b \<and> check v = None))
           \<and> (\<forall>f. default_val b = Factory f \<longrightarrow> (\<exists>r. f = Inr r))"
  proof
    fix b assume b: "b \<in> set ?I"
    then have "(lstrip_underscore (name b), init_default b) \<in> set (fn_params init)"
      by (auto simp: init)
    from bind_args_Inr(2) [OF assms(6) dp this]
    have "locals (lstrip_underscore (name b)) \<noteq> None" by (rule conjunct2)
    then obtain v where v: "locals (lstrip_underscore (name b)) = Some v" by blast
    from b aa have "b \<in> set (attrs_attrs cl')" "\<not> no_init b" by auto
    with assms(7) have h: "case validator b of None \<Rightarrow> True
            | Some check \<Rightarrow> lstrip_underscore (name b) = name b
                \<and> (\<forall>v. locals (name b) = Some v \<longrightarrow> check v = None)"
      "\<forall>f. default_val b = Factory f \<longrightarrow> (\<exists>r. f = Inr r)" by auto
    from h(1) v have "case validator b of None \<Rightarrow> True
                    | Some check \<Rightarrow> lstrip_underscore (name b) = name b \<and> check v = None"
      by (auto split: option.splits)
    with v h(2) attr_dict_of_distinct [OF d b]
    show "fn_attr_dict init (name b) = Some b
           \<and> (\<exists>v. locals (lstrip_underscore (name b)) = Some v
                \<and> (case validator b of None \<Rightarrow> True
                    | Some check \<Rightarrow> lstrip_underscore (name b) = name b \<and> check v = None))
           \<and> (\<forall>f. default_val b = Factory f \<longrightarrow> (\<exists>r. f = Inr r))"
      by (simp add: init)
  qed
  from exec_attrs_lines_returns [OF n this, of self]
  show ?thesis using assms(6) by (simp add: call_init_def init)
qed

subsection \<open>The examples\<close>

lemmas example_simps =
  transform_attrs_def from_counting_attr_def cls_setattr_def Let_def
  attrs_to_script_eq attr_param_def attr_lines_def compile_def is_identifier_def
  ident_start_def ident_char_def py_keywords_def lstrip_underscore_def is_Factory_def
  NOTHING_def init_default_def

lemma transform_loop_getattr:
  "transform_loop xs h cl = Inr cl' \<Longrightarrow> k \<notin> fst ` set xs
     \<Longrightarrow> cls_getattr cl' k = cls_getattr cl k"
proof (induction xs arbitrary: h cl)
  case Nil
  then show ?case by simp
next
  case (Cons x xs)
  obtain n ca where x: "x = (n, ca)" by (cases x)
  from Cons.prems x have k: "k \<noteq> n" "k \<notin> fst ` set xs" by auto
  from Cons.prems(1) x obtain h' where
    "transform_loop xs h' (cls_setattr n (Attr (from_counting_attr n ca))
        (cl\<lparr>attrs_attrs := attrs_attrs cl @ [from_counting_attr n ca]\<rparr>)) = Inr cl'"
    by (auto simp: Let_def split: if_splits)
  from Cons.IH [OF this k(2)] k(1) show ?case
    by (simp add: cls_getattr_def cls_setattr_def update_conv')
qed

lemma transform_attrs_getattr:
  assumes "transform_attrs cl = Inr cl1"
    and "k \<notin> fst ` set (counting_items (cls_dict cl))"
  shows "cls_getattr cl1 k = cls_getattr cl k"
proof -
  from assms(2)
  have "k \<notin> fst ` set (sort_key (\<lambda>e. counter (snd e)) (counting_items (cls_dict cl)))"
    by simp
  from transform_loop_getattr [OF assms(1) [unfolded transform_attrs_def] this]
  show ?thesis by (simp add: cls_getattr_def)
qed

text \<open>The decorator returns where \<open>_transform_attrs\<close> does and the script compiles.\<close>

lemma decorated:
  assumes "transform_attrs cl = Inr cl1" and "attrs_attrs cl1 = attrs"
    and "distinct (map name (filter (\<lambda>a. \<not> no_init a) attrs))"
    and "compile (attrs_to_script (filter (\<lambda>a. \<not> no_init a) attrs))
           = Inr (attrs_to_script (filter (\<lambda>a. \<not> no_init a) attrs))"
  shows "\<exists>cl' g'. attributes rt (Is_class cl) nr nc nh ni g = Inl (Inr cl', g')
           \<and> attrs_attrs cl' = attrs
           \<and> (ni \<or> cls_getattr cl' ''__init__'' = Some (Method (Gen_init
                \<lparr>fn_params = map (\<lambda>a. (lstrip_underscore (name a), init_default a))
                    (filter (\<lambda>a. \<not> no_init a) attrs),
                 fn_body = concat (map attr_lines (filter (\<lambda>a. \<not> no_init a) attrs)),
                 fn_attr_dict = attr_dict_of (filter (\<lambda>a. \<not> no_init a) attrs)\<rparr>)))"
  using assms(1,4) exec_def_attrs [OF assms(3)]
  by (simp add: attributes_def wrap_before_init add_init_def Let_def assms(2))

text \<open>The attributes of the example classes.\<close>

lemma class_C_transformed:
  "\<exists>cl1. transform_attrs class_C = Inr cl1
     \<and> attrs_attrs cl1 =
         [\<lparr>default_val = NOTHING, validator = None, no_repr = False, no_cmp = False,
            no_hash = False, no_init = False, name = ''x''\<rparr>,
          \<lparr>default_val = PInt 42, validator = None, no_repr = False, no_cmp = False,
            no_hash = False, no_init = False, name = ''y''\<rparr>]"
proof -
  have "\<exists>cl1. transform_attrs class_C = Inr cl1"
    by (simp add: transform_attrs_def class_C_counting_items from_counting_attr_def Let_def
        NOTHING_def)
  then obtain cl1 where t: "transform_attrs class_C = Inr cl1" by blast
  from transform_attrs_sorted [OF t] t show ?thesis
    by (simp add: class_C_counting_items from_counting_attr_def)
qed

lemma class_D_transformed:
  "\<exists>cl1. transform_attrs class_D = Inr cl1
     \<and> attrs_attrs cl1 =
         [\<lparr>default_val = NOTHING, validator = None, no_repr = False, no_cmp = False,
            no_hash = False, no_init = False, name = ''x''\<rparr>,
          \<lparr>default_val = PInt 42, validator = None, no_repr = False, no_cmp = False,
            no_hash = False, no_init = False, name = ''_y''\<rparr>,
          \<lparr>default_val = Factory (Inr (PTuple [])), validator = None, no_repr = False,
            no_cmp = False, no_hash = False, no_init = False, name = ''z''\<rparr>]"
proof -
  have "\<exists>cl1. transform_attrs class_D = Inr cl1" by (simp add: class_D_def example_simps)
  then obtain cl1 where t: "transform_attrs class_D = Inr cl1" by blast
  from transform_attrs_sorted [OF t] t show ?thesis
    by (simp add: class_D_def from_counting_attr_def)
qed

lemma class_V_transformed:
  "\<exists>cl1. transform_attrs class_V = Inr cl1
     \<and> attrs_attrs cl1 =
         [\<lparr>default_val = NOTHING, validator = Some accepts_str, no_repr = False,
            no_cmp = False, no_hash = False, no_init = False, name = ''x''\<rparr>]"
proof -
  have "\<exists>cl1. transform_attrs class_V = Inr cl1" by (simp add: class_V_def example_simps)
  then obtain cl1 where t: "transform_attrs class_V = Inr cl1" by blast
  from transform_attrs_sorted [OF t] t show ?thesis
    by (simp add: class_V_def from_counting_attr_def)
qed


theorem generated_init_sets_fields_witness:
  "\<exists>cl' g' init self'.
     attributes rt0 (Is_class class_D) False False False False g0 = Inl (Inr cl', g')
     \<and> cls_getattr cl' ''__init__'' = Some (Method (Gen_init init))
     \<and> call_init init Map.empty [PInt 1] [(''z'', NOTHING)] = Inr self'
     \<and> self' ''x'' = Some (PInt 1) \<and> self' ''_y'' = Some (PInt 42)
     \<and> self' ''z'' = Some (PTuple [])"
proof -
  let ?x = "\<lparr>default_val = NOTHING, validator = None, no_repr = False, no_cmp = False,
            no_hash = False, no_init = False, name = ''x''\<rparr>"
  let ?y = "\<lparr>default_val = PInt 42, validator = None, no_repr = False, no_cmp = False,
            no_hash = False, no_init = False, name = ''_y''\<rparr>"
  let ?z = "\<lparr>default_val = Factory (Inr (PTuple [])), validator = None, no_repr = False,
            no_cmp = False, no_hash = False, no_init = False, name = ''z''\<rparr>"
  let ?init = "\<lparr>fn_params = [(''x'', None), (''y'', Some (PInt 42)), (''z'', Some NOTHING)],
       fn_body = concat (map attr_lines [?x, ?y, ?z]),
       fn_attr_dict = attr_dict_of [?x, ?y, ?z]\<rparr>"
  from class_D_transformed obtain cl1 where t: "transform_attrs class_D = Inr cl1"
    and a1: "attrs_attrs cl1 = [?x, ?y, ?z]" by blast
  have "\<exists>cl' g'. attributes rt0 (Is_class class_D) False False False False g0 = Inl (Inr cl', g')
           \<and> attrs_attrs cl' = [?x, ?y, ?z]
           \<and> (False \<or> cls_getattr cl' ''__init__'' = Some (Method (Gen_init
                \<lparr>fn_params = map (\<lambda>a. (lstrip_underscore (name a), init_default a))
                    (filter (\<lambda>a. \<not> no_init a) [?x, ?y, ?z]),
                 fn_body = concat (map attr_lines (filter (\<lambda>a. \<not> no_init a) [?x, ?y, ?z])),
                 fn_attr_dict = attr_dict_of (filter (\<lambda>a. \<not> no_init a) [?x, ?y, ?z])\<rparr>)))"
    by (rule decorated [OF t a1]) (simp_all add: example_simps)
  then obtain cl' g' where
    d: "attributes rt0 (Is_class class_D) False False False False g0 = Inl (Inr cl', g')"
    and a: "attrs_attrs cl' = [?x, ?y, ?z]"
    and i: "cls_getattr cl' ''__init__'' = Some (Method (Gen_init ?init))"
    by (auto simp: lstrip_underscore_def init_default_def is_Factory_def NOTHING_def)
  have k: "distinct (map fst (cls_dict class_D))" by (simp add: class_D_def)
  have n: "''NOTHING'' \<notin> set (map fst (fn_params ?init))"
    "''attr_dict'' \<notin> set (map fst (fn_params ?init))" by simp_all
  have "\<exists>self'. call_init ?init Map.empty [PInt 1] [(''z'', NOTHING)] = Inr self'"
    by (simp add: call_init_def bind_args_def given_args_def attr_lines_def lookup_attr_def
        attr_dict_of_def is_Factory_def NOTHING_def Let_def lstrip_underscore_def)
  then obtain self' where c: "call_init ?init Map.empty [PInt 1] [(''z'', NOTHING)] = Inr self'"
    by blast
  note th = generated_init_sets_fields [OF d k i n c]
  have "self' ''x'' = Some (PInt 1)"
    using th [of ?x] by (simp add: a given_args_def is_Factory_def lstrip_underscore_def NOTHING_def)
  moreover have "self' ''_y'' = Some (PInt 42)"
    using th [of ?y] by (simp add: a given_args_def is_Factory_def lstrip_underscore_def NOTHING_def)
  moreover have "self' ''z'' = Some (PTuple [])"
    using th [of ?z] by (simp add: a given_args_def is_Factory_def lstrip_underscore_def NOTHING_def)
  ultimately show ?thesis using d i c by blast
qed

text \<open>
  A class with one declared attribute, decorated with no flag set and called: the call
  of the function object the decorator makes.
\<close>

lemma decorate_and_call_single:
  assumes "cls_dict cl = [(n, Counting ca)]" and "no_init ca = False"
    and "compile (attrs_to_script [from_counting_attr n ca])
           = Inr (attrs_to_script [from_counting_attr n ca])"
  shows "decorate_and_call rt cl pos kw =
           call_init \<lparr>fn_params = [(lstrip_underscore n, init_default (from_counting_attr n ca))],
                      fn_body = attr_lines (from_counting_attr n ca),
                      fn_attr_dict = attr_dict_of [from_counting_attr n ca]\<rparr>
             Map.empty pos kw"
proof -
  let ?a = "from_counting_attr n ca"
  have "\<exists>cl1. transform_attrs cl = Inr cl1"
    by (simp add: transform_attrs_def assms(1) Let_def)
  then obtain cl1 where t: "transform_attrs cl = Inr cl1" by blast
  have a: "attrs_attrs cl1 = [?a]"
    by (simp add: transform_attrs_sorted [OF t] assms(1))
  have ni: "\<not> no_init ?a" using assms(2) by (simp add: from_counting_attr_def)
  have "\<exists>cl' g'. attributes rt (Is_class cl) False False False False g0 = Inl (Inr cl', g')
           \<and> attrs_attrs cl' = [?a]
           \<and> (False \<or> cls_getattr cl' ''__init__'' = Some (Method (Gen_init
                \<lparr>fn_params = map (\<lambda>a. (lstrip_underscore (name a), init_default a))
                    (filter (\<lambda>a. \<not> no_init a) [?a]),
                 fn_body = concat (map attr_lines (filter (\<lambda>a. \<not> no_init a) [?a])),
                 fn_attr_dict = attr_dict_of (filter (\<lambda>a. \<not> no_init a) [?a])\<rparr>)))"
    by (rule decorated [OF t a]) (simp_all add: ni assms(3))
  then obtain cl' g' where
    "wrap rt False False False False cl g0 = (Inr cl', g')"
    "cls_getattr cl' ''__init__'' = Some (Method (Gen_init
       \<lparr>fn_params = [(lstrip_underscore n, init_default ?a)],
        fn_body = attr_lines ?a, fn_attr_dict = attr_dict_of [?a]\<rparr>))"
    by (auto simp: ni attributes_def)
  then show ?thesis by (simp add: decorate_and_call_def instantiate_def)
qed

text \<open>
  C1, as the specification states it, speaks of every call that passes an argument. It
  does not hold of the call below: the class \<open>V\<close> declares \<open>x\<close> with a validator
  that accepts strings only, the call passes \<open>1\<close> for \<open>x\<close>, the first line of the
  generated \<open>__init__\<close> calls the validator, which raises, and \<open>self.x = x\<close> is not
  reached.
\<close>

theorem validator_rejects_argument:
  "decorate_and_call rt0 class_V [PInt 1] [] = Inl TypeError"
proof -
  have "decorate_and_call rt0 class_V [PInt 1] [] =
      call_init \<lparr>fn_params = [(lstrip_underscore ''x'', init_default (from_counting_attr ''x''
           \<lparr>default_val = NOTHING, validator = Some accepts_str, no_repr = False,
            no_cmp = False, no_hash = False, no_init = False, counter = 1\<rparr>))],
         fn_body = attr_lines (from_counting_attr ''x''
           \<lparr>default_val = NOTHING, validator = Some accepts_str, no_repr = False,
            no_cmp = False, no_hash = False, no_init = False, counter = 1\<rparr>),
         fn_attr_dict = attr_dict_of [from_counting_attr ''x''
           \<lparr>default_val = NOTHING, validator = Some accepts_str, no_repr = False,
            no_cmp = False, no_hash = False, no_init = False, counter = 1\<rparr>]\<rparr>
        Map.empty [PInt 1] []"
    by (rule decorate_and_call_single) (simp_all add: class_V_def example_simps)
  also have "\<dots> = Inl TypeError"
    by (simp add: call_init_def bind_args_def given_args_def attr_lines_def lookup_attr_def
        attr_dict_of_def example_simps accepts_str_def)
  finally show ?thesis .
qed

subsection \<open>Calls the statement on the initializer leaves out\<close>

text \<open>
  The line that calls the validator names the attribute, not the parameter: for an
  attribute whose name begins with an underscore the call of \<open>__init__\<close> raises
  NameError, whatever the validator.
\<close>

lemma private_validator_NameError:
  "decorate_and_call rt0 class_P [PInt 1] [] = Inl NameError"
proof -
  have "decorate_and_call rt0 class_P [PInt 1] [] =
      call_init \<lparr>fn_params = [(lstrip_underscore ''_x'', init_default (from_counting_attr ''_x''
           \<lparr>default_val = NOTHING, validator = Some accepts_all, no_repr = False,
            no_cmp = False, no_hash = False, no_init = False, counter = 1\<rparr>))],
         fn_body = attr_lines (from_counting_attr ''_x''
           \<lparr>default_val = NOTHING, validator = Some accepts_all, no_repr = False,
            no_cmp = False, no_hash = False, no_init = False, counter = 1\<rparr>),
         fn_attr_dict = attr_dict_of [from_counting_attr ''_x''
           \<lparr>default_val = NOTHING, validator = Some accepts_all, no_repr = False,
            no_cmp = False, no_hash = False, no_init = False, counter = 1\<rparr>]\<rparr>
        Map.empty [PInt 1] []"
    by (rule decorate_and_call_single) (simp_all add: class_P_def example_simps)
  also have "\<dots> = Inl NameError"
    by (simp add: call_init_def bind_args_def given_args_def attr_lines_def lookup_attr_def
        attr_dict_of_def example_simps accepts_all_def)
  finally show ?thesis .
qed

text \<open>
  A parameter named \<open>NOTHING\<close> hides the sentinel in the test \<open>is not NOTHING\<close>: the
  factory is called though an argument is given.
\<close>

lemma parameter_named_NOTHING:
  "decorate_and_call rt0 class_N [PInt 5] [] = Inr [''NOTHING'' \<mapsto> PTuple []]"
proof -
  have "decorate_and_call rt0 class_N [PInt 5] [] =
      call_init \<lparr>fn_params = [(lstrip_underscore ''NOTHING'', init_default (from_counting_attr ''NOTHING''
           \<lparr>default_val = Factory (Inr (PTuple [])), validator = None, no_repr = False,
            no_cmp = False, no_hash = False, no_init = False, counter = 1\<rparr>))],
         fn_body = attr_lines (from_counting_attr ''NOTHING''
           \<lparr>default_val = Factory (Inr (PTuple [])), validator = None, no_repr = False,
            no_cmp = False, no_hash = False, no_init = False, counter = 1\<rparr>),
         fn_attr_dict = attr_dict_of [from_counting_attr ''NOTHING''
           \<lparr>default_val = Factory (Inr (PTuple [])), validator = None, no_repr = False,
            no_cmp = False, no_hash = False, no_init = False, counter = 1\<rparr>]\<rparr>
        Map.empty [PInt 5] []"
    by (rule decorate_and_call_single) (simp_all add: class_N_def example_simps)
  also have "\<dots> = Inr [''NOTHING'' \<mapsto> PTuple []]"
    by (simp add: call_init_def bind_args_def given_args_def attr_lines_def lookup_attr_def
        attr_dict_of_def example_simps)
  finally show ?thesis .
qed

text \<open>
  The validator runs before the factory: where the argument is omitted it is given
  \<open>NOTHING\<close>, not what the factory returns.
\<close>

lemma validator_before_factory:
  "decorate_and_call rt0 class_W [] [] = Inl TypeError"
proof -
  have "decorate_and_call rt0 class_W [] [] =
      call_init \<lparr>fn_params = [(lstrip_underscore ''x'', init_default (from_counting_attr ''x''
           \<lparr>default_val = Factory (Inr (PStr [])), validator = Some accepts_str,
            no_repr = False, no_cmp = False, no_hash = False, no_init = False,
            counter = 1\<rparr>))],
         fn_body = attr_lines (from_counting_attr ''x''
           \<lparr>default_val = Factory (Inr (PStr [])), validator = Some accepts_str,
            no_repr = False, no_cmp = False, no_hash = False, no_init = False,
            counter = 1\<rparr>),
         fn_attr_dict = attr_dict_of [from_counting_attr ''x''
           \<lparr>default_val = Factory (Inr (PStr [])), validator = Some accepts_str,
            no_repr = False, no_cmp = False, no_hash = False, no_init = False,
            counter = 1\<rparr>]\<rparr>
        Map.empty [] []"
    by (rule decorate_and_call_single) (simp_all add: class_W_def example_simps)
  also have "\<dots> = Inl TypeError"
    by (simp add: call_init_def bind_args_def given_args_def attr_lines_def lookup_attr_def
        attr_dict_of_def example_simps accepts_str_def)
  finally show ?thesis .
qed

subsection \<open>The statements at the examples\<close>

lemma class_C_decorated:
  "\<exists>cl' g'. attributes rt0 (Is_class class_C) False False nh False g0 = Inl (Inr cl', g')
     \<and> attrs_attrs cl' =
         [\<lparr>default_val = NOTHING, validator = None, no_repr = False, no_cmp = False,
            no_hash = False, no_init = False, name = ''x''\<rparr>,
          \<lparr>default_val = PInt 42, validator = None, no_repr = False, no_cmp = False,
            no_hash = False, no_init = False, name = ''y''\<rparr>]"
proof -
  from class_C_transformed obtain cl1 where t: "transform_attrs class_C = Inr cl1"
    and a: "attrs_attrs cl1 =
         [\<lparr>default_val = NOTHING, validator = None, no_repr = False, no_cmp = False,
            no_hash = False, no_init = False, name = ''x''\<rparr>,
          \<lparr>default_val = PInt 42, validator = None, no_repr = False, no_cmp = False,
            no_hash = False, no_init = False, name = ''y''\<rparr>]" by blast
  have "\<exists>cl' g'. attributes rt0 (Is_class class_C) False False nh False g0 = Inl (Inr cl', g')
           \<and> attrs_attrs cl' = attrs_attrs cl1
           \<and> (False \<or> cls_getattr cl' ''__init__'' = Some (Method (Gen_init
                \<lparr>fn_params = map (\<lambda>a. (lstrip_underscore (name a), init_default a))
                    (filter (\<lambda>a. \<not> no_init a) (attrs_attrs cl1)),
                 fn_body = concat (map attr_lines (filter (\<lambda>a. \<not> no_init a) (attrs_attrs cl1))),
                 fn_attr_dict = attr_dict_of (filter (\<lambda>a. \<not> no_init a) (attrs_attrs cl1))\<rparr>)))"
    by (rule decorated [OF t refl]) (simp_all add: a example_simps)
  with a show ?thesis by auto
qed

theorem attributes_installs_families_witness:
  "\<exists>cl' g'. attributes rt0 (Is_class class_C) False False True False g0 = Inl (Inr cl', g')
     \<and> cls_getattr cl' ''__hash__'' = None
     \<and> cls_getattr cl' ''__doc__'' = Some (Value PNone)
     \<and> (\<exists>attrs. cls_getattr cl' ''__repr__'' = Some (Method (Gen_repr attrs)))
     \<and> (\<exists>attrs. cls_getattr cl' ''__eq__'' = Some (Method (Gen_eq attrs)))
     \<and> (\<exists>init. cls_getattr cl' ''__init__'' = Some (Method (Gen_init init)))"
proof -
  from class_C_decorated [of True] obtain cl' g' where
    d: "attributes rt0 (Is_class class_C) False False True False g0 = Inl (Inr cl', g')"
    by blast
  from attributes_installs_families [OF d] obtain cl1 where
    th: "transform_attrs class_C = Inr cl1
    \<and> (if False then cls_getattr cl' ''__repr__'' = cls_getattr cl1 ''__repr__''
        else \<exists>attrs. cls_getattr cl' ''__repr__'' = Some (Method (Gen_repr attrs)))
    \<and> list_all (\<lambda>k. if False then cls_getattr cl' k = cls_getattr cl1 k
        else \<exists>attrs m. cmp_method k attrs = Some m \<and> cls_getattr cl' k = Some (Method m))
        cmp_names
    \<and> (if True then cls_getattr cl' ''__hash__'' = cls_getattr cl1 ''__hash__''
        else \<exists>attrs. cls_getattr cl' ''__hash__'' = Some (Method (Gen_hash attrs)))
    \<and> (if False then cls_getattr cl' ''__init__'' = cls_getattr cl1 ''__init__''
        else \<exists>init. cls_getattr cl' ''__init__'' = Some (Method (Gen_init init)))
    \<and> (\<forall>k. k \<in> set ([''__repr__'', ''__hash__'', ''__init__''] @ cmp_names)
          \<or> cls_getattr cl' k = cls_getattr cl1 k)" ..
  note t = th [THEN conjunct1]
  from th [THEN conjunct2, THEN conjunct1]
  have r: "\<exists>attrs. cls_getattr cl' ''__repr__'' = Some (Method (Gen_repr attrs))"
    by (simp only: if_False)
  from th [THEN conjunct2, THEN conjunct2, THEN conjunct1]
  have "\<exists>attrs m. cmp_method ''__eq__'' attrs = Some m
      \<and> cls_getattr cl' ''__eq__'' = Some (Method m)"
    by (simp only: if_False cmp_names_def list.pred_inject)
  then obtain attrs m where "cmp_method ''__eq__'' attrs = Some m"
    "cls_getattr cl' ''__eq__'' = Some (Method m)" by blast
  then have c: "\<exists>attrs. cls_getattr cl' ''__eq__'' = Some (Method (Gen_eq attrs))"
    by (auto simp: cmp_method_def)
  from th [THEN conjunct2, THEN conjunct2, THEN conjunct2, THEN conjunct1]
  have h: "cls_getattr cl' ''__hash__'' = cls_getattr cl1 ''__hash__''"
    by (simp only: if_True)
  from th [THEN conjunct2, THEN conjunct2, THEN conjunct2, THEN conjunct2, THEN conjunct1]
  have i: "\<exists>init. cls_getattr cl' ''__init__'' = Some (Method (Gen_init init))"
    by (simp only: if_False)
  note o = th [THEN conjunct2, THEN conjunct2, THEN conjunct2, THEN conjunct2,
    THEN conjunct2, THEN spec [of _ "''__doc__''"]]
  have "cls_getattr cl1 ''__hash__'' = cls_getattr class_C ''__hash__''"
    by (rule transform_attrs_getattr [OF t]) (simp add: class_C_counting_items)
  with h have h': "cls_getattr cl' ''__hash__'' = None"
    by (simp add: cls_getattr_def class_C_def Let_def)
  have "cls_getattr cl1 ''__doc__'' = cls_getattr class_C ''__doc__''"
    by (rule transform_attrs_getattr [OF t]) (simp add: class_C_counting_items)
  moreover from o have "cls_getattr cl' ''__doc__'' = cls_getattr cl1 ''__doc__''"
    by (simp add: cmp_names_def)
  ultimately have doc: "cls_getattr cl' ''__doc__'' = Some (Value PNone)"
    by (simp add: cls_getattr_def class_C_def Let_def)
  from d h' doc r c i show ?thesis
    by - (rule exI [of _ cl'], rule exI [of _ g'], intro conjI)
qed

theorem comparison_NotImplemented_witness:
  "\<exists>cl' g' m. attributes rt0 (Is_class class_C) False False False False g0 = Inl (Inr cl', g')
     \<and> cls_getattr cl' ''__lt__'' = Some (Method m)
     \<and> call_cmp rt0 m obj1 (PInt 3) = Inr PNotImplemented"
proof -
  from class_C_decorated [of False] obtain cl' g' where
    d: "attributes rt0 (Is_class class_C) False False False False g0 = Inl (Inr cl', g')"
    by blast
  have k: "''__lt__'' \<in> set cmp_names" by (simp add: cmp_names_def)
  have n: "\<not> rt_isinstance rt0 (PInt 3) (class_of obj1)" by (simp add: rt0_def obj1_def)
  from comparison_NotImplemented [OF d k n] d show ?thesis by blast
qed

theorem eq_implies_same_hash_witness:
  "\<exists>cl' g' e h. attributes rt0 (Is_class class_C) False False False False g0 = Inl (Inr cl', g')
     \<and> cls_getattr cl' ''__eq__'' = Some (Method e)
     \<and> cls_getattr cl' ''__hash__'' = Some (Method h)
     \<and> call_cmp rt0 e obj1 obj2 = Inr (PBool True)
     \<and> call_hash rt0 h obj1 = Inr 2
     \<and> call_hash rt0 h obj2 = Inr 2"
proof -
  let ?attrs = "[\<lparr>default_val = NOTHING, validator = None, no_repr = False, no_cmp = False,
            no_hash = False, no_init = False, name = ''x''\<rparr>,
          \<lparr>default_val = PInt 42, validator = None, no_repr = False, no_cmp = False,
            no_hash = False, no_init = False, name = ''y''\<rparr>]"
  from class_C_decorated [of False] obtain cl' g' where
    d: "attributes rt0 (Is_class class_C) False False False False g0 = Inl (Inr cl', g')"
    and a: "attrs_attrs cl' = ?attrs" by blast
  from d have w: "wrap rt0 False False False False class_C g0 = (Inr cl', g')"
    by (simp add: attributes_class)
  from wrap_Inr [OF w] obtain cl1 where t: "transform_attrs class_C = Inr cl1" by blast
  have a1: "attrs_attrs cl1 = ?attrs" using wrap_attrs_attrs [OF w t] a by simp
  have e: "cls_getattr cl' ''__eq__'' = Some (Method (Gen_eq ?attrs))"
    by (simp add: wrap_getattr [OF w t] before_init_getattr cmp_method_def a1)
  have h: "cls_getattr cl' ''__hash__'' = Some (Method (Gen_hash ?attrs))"
    by (simp add: wrap_getattr [OF w t] before_init_getattr cmp_method_def a1)
  have f: "list_all (\<lambda>a. \<not> no_cmp a \<and> \<not> no_hash a) (attrs_attrs cl')"
    by (simp add: a)
  have c: "\<forall>s t. rt_eq rt0 (PTuple s) (PTuple t) = Inr True
           \<longrightarrow> rt_hash rt0 (PTuple s) = rt_hash rt0 (PTuple t)"
    by (simp add: rt0_def)
  have q: "call_cmp rt0 (Gen_eq ?attrs) obj1 obj2 = Inr (PBool True)"
    by (simp add: cmp_eq_def rt0_def obj1_def obj2_def)
  have n: "call_hash rt0 (Gen_hash ?attrs) obj1 = Inr 2"
    by (simp add: hash_method_def rt0_def obj1_def)
  from eq_implies_same_hash [OF d f c e h q n] d e h q n show ?thesis by blast
qed

text \<open>The methods the decorator installs where no flag is set.\<close>

lemma decorated_eq_hash:
  assumes "wrap rt False False False False cl g0 = (Inr cl', g')"
    and "transform_attrs cl = Inr cl1"
  shows "decorated_eq rt cl x y =
           cmp_eq rt (filter (\<lambda>a. \<not> no_cmp a) (attrs_attrs cl1)) x y"
    and "decorated_hash rt cl x =
           hash_method rt (filter (\<lambda>a. \<not> no_hash a) (attrs_attrs cl1)) x"
  using assms(1)
  by (simp_all add: decorated_eq_def decorated_hash_def wrap_getattr [OF assms]
      before_init_getattr cmp_method_def)

text \<open>
  C9, as the specification states it, speaks of any two instances. The two instances
  below of \<open>class L: x = attr()\<close> have \<open>x = [1]\<close>: the generated \<open>__eq__\<close> compares
  the tuples \<open>([1],)\<close> and returns True, and the generated \<open>__hash__\<close> raises
  TypeError, a list having no hash.
\<close>

theorem equal_objects_without_hash:
  "decorated_eq rt1 class_L objL1 objL2 = Inr (PBool True)
   \<and> decorated_hash rt1 class_L objL1 = Inl TypeError"
proof -
  let ?x = "\<lparr>default_val = NOTHING, validator = None, no_repr = False, no_cmp = False,
            no_hash = False, no_init = False, name = ''x''\<rparr>"
  have "\<exists>cl1. transform_attrs class_L = Inr cl1" by (simp add: class_L_def example_simps)
  then obtain cl1 where t: "transform_attrs class_L = Inr cl1" by blast
  have a1: "attrs_attrs cl1 = [?x]"
    by (simp add: transform_attrs_sorted [OF t] class_L_def from_counting_attr_def)
  have "\<exists>cl' g'. attributes rt1 (Is_class class_L) False False False False g0 = Inl (Inr cl', g')
           \<and> attrs_attrs cl' = attrs_attrs cl1
           \<and> (False \<or> cls_getattr cl' ''__init__'' = Some (Method (Gen_init
                \<lparr>fn_params = map (\<lambda>a. (lstrip_underscore (name a), init_default a))
                    (filter (\<lambda>a. \<not> no_init a) (attrs_attrs cl1)),
                 fn_body = concat (map attr_lines (filter (\<lambda>a. \<not> no_init a) (attrs_attrs cl1))),
                 fn_attr_dict = attr_dict_of (filter (\<lambda>a. \<not> no_init a) (attrs_attrs cl1))\<rparr>)))"
    by (rule decorated [OF t refl]) (simp_all add: a1 example_simps)
  then obtain cl' g' where
    w: "wrap rt1 False False False False class_L g0 = (Inr cl', g')"
    by (auto simp: attributes_def)
  have "decorated_eq rt1 class_L objL1 objL2 = cmp_eq rt1 [?x] objL1 objL2"
    by (simp add: decorated_eq_hash(1) [OF w t] a1)
  also have "\<dots> = Inr (PBool True)"
    by (simp add: cmp_eq_def rt1_def objL1_def objL2_def)
  finally have e: "decorated_eq rt1 class_L objL1 objL2 = Inr (PBool True)" .
  have "decorated_hash rt1 class_L objL1 = hash_method rt1 [?x] objL1"
    by (simp add: decorated_eq_hash(2) [OF w t] a1)
  also have "\<dots> = Inl TypeError"
    by (simp add: hash_method_def rt1_def objL1_def)
  finally have h: "decorated_hash rt1 class_L objL1 = Inl TypeError" .
  from e h show ?thesis by (rule conjI)
qed

text \<open>
  Where the values of the attributes compare equal and have different hashes, so have
  the objects: the statement on \<open>__eq__\<close> and \<open>__hash__\<close> needs that \<open>hash\<close> gives
  tuples that compare equal the same result.
\<close>

lemma equal_objects_different_hash:
  "decorated_eq rt2 class_L objL1 objL2 = Inr (PBool True)
   \<and> decorated_hash rt2 class_L objL1 = Inr 1
   \<and> decorated_hash rt2 class_L objL2 = Inr 2"
proof -
  let ?x = "\<lparr>default_val = NOTHING, validator = None, no_repr = False, no_cmp = False,
            no_hash = False, no_init = False, name = ''x''\<rparr>"
  have "\<exists>cl1. transform_attrs class_L = Inr cl1" by (simp add: class_L_def example_simps)
  then obtain cl1 where t: "transform_attrs class_L = Inr cl1" by blast
  have a1: "attrs_attrs cl1 = [?x]"
    by (simp add: transform_attrs_sorted [OF t] class_L_def from_counting_attr_def)
  have "\<exists>cl' g'. attributes rt2 (Is_class class_L) False False False False g0 = Inl (Inr cl', g')
           \<and> attrs_attrs cl' = attrs_attrs cl1
           \<and> (False \<or> cls_getattr cl' ''__init__'' = Some (Method (Gen_init
                \<lparr>fn_params = map (\<lambda>a. (lstrip_underscore (name a), init_default a))
                    (filter (\<lambda>a. \<not> no_init a) (attrs_attrs cl1)),
                 fn_body = concat (map attr_lines (filter (\<lambda>a. \<not> no_init a) (attrs_attrs cl1))),
                 fn_attr_dict = attr_dict_of (filter (\<lambda>a. \<not> no_init a) (attrs_attrs cl1))\<rparr>)))"
    by (rule decorated [OF t refl]) (simp_all add: a1 example_simps)
  then obtain cl' g' where
    w: "wrap rt2 False False False False class_L g0 = (Inr cl', g')"
    by (auto simp: attributes_def)
  have "cmp_eq rt2 [?x] objL1 objL2 = Inr (PBool True)"
    by (simp add: cmp_eq_def rt2_def objL1_def objL2_def)
  then have e: "decorated_eq rt2 class_L objL1 objL2 = Inr (PBool True)"
    by (simp only: decorated_eq_hash(1) [OF w t] a1 filter.simps attr_fields.simps if_True
        simp_thms)
  have "hash_method rt2 [?x] objL1 = Inr 1"
    by (simp add: hash_method_def rt2_def objL1_def)
  then have h1: "decorated_hash rt2 class_L objL1 = Inr 1"
    by (simp only: decorated_eq_hash(2) [OF w t] a1 filter.simps attr_fields.simps if_True
        simp_thms)
  have "hash_method rt2 [?x] objL2 = Inr 2"
    by (simp add: hash_method_def rt2_def objL2_def)
  then have h2: "decorated_hash rt2 class_L objL2 = Inr 2"
    by (simp only: decorated_eq_hash(2) [OF w t] a1 filter.simps attr_fields.simps if_True
        simp_thms)
  from e h1 h2 show ?thesis by (intro conjI)
qed


subsection \<open>The text of a script\<close>

text \<open>The script \<open>_attrs_to_script\<close> writes for the attributes of the class \<open>D\<close>.\<close>

lemma class_D_script_text:
  "render_script (attrs_to_script
     [\<lparr>default_val = NOTHING, validator = None, no_repr = False, no_cmp = False,
        no_hash = False, no_init = False, name = ''x''\<rparr>,
      \<lparr>default_val = PInt 42, validator = Some accepts_all, no_repr = False, no_cmp = False,
        no_hash = False, no_init = False, name = ''_y''\<rparr>,
      \<lparr>default_val = Factory (Inr (PTuple [])), validator = None, no_repr = False,
        no_cmp = False, no_hash = False, no_init = False, name = ''z''\<rparr>]) =
   ''def __init__(self, x, y=attr_dict['' @ quote @ ''_y'' @ quote @ ''].default, z=NOTHING):''
   @ newline @ ''    '' @ quote @ quote @ quote
   @ newline @ ''    Attribute initializer automatically created by attrs.''
   @ newline @ ''    '' @ quote @ quote @ quote
   @ newline @ ''    self.x = x''
   @ newline @ ''    attr_dict['' @ quote @ ''_y'' @ quote @ ''].validator(attr_dict[''
     @ quote @ ''_y'' @ quote @ ''], _y)''
   @ newline @ ''    self._y = y''
   @ newline @ ''    if z is not NOTHING:''
   @ newline @ ''        self.z = z''
   @ newline @ ''    else:''
   @ newline @ ''        self.z = attr_dict['' @ dquote @ ''z'' @ dquote @ ''].default.factory()''
   @ newline"
  by (simp add: render_script_def attrs_to_script_eq attr_param_def attr_lines_def
      lstrip_underscore_def is_Factory_def NOTHING_def)

end
